theory Spec2Isabelle
  imports Complex_Main "HOL-Library.Log_Nat"
begin

section \<open>The ledger core: money, accounts, transactions\<close>

text \<open>
  The Go sources keep every amount in a \<^verbatim>\<open>float64\<close>. The carrier of amounts is a type
  parameter \<open>'a\<close> of the model; each definition asks only for the operations it uses
  (\<open>0\<close>, \<open>+\<close>, \<open>-\<close>, \<open>*\<close>, \<open><\<close>). A theorem stated for every carrier uses no law of
  arithmetic and holds for \<open>float64\<close> in particular. The type \<open>float64\<close> itself is
  defined below, with the addition, the subtraction and the comparison of IEEE-754
  binary64; the theorems about sums and differences of balances are stated for it.

  A Go \<^verbatim>\<open>error\<close> made by \<^verbatim>\<open>errors.New\<close> is modelled by its message, and a
  result \<^verbatim>\<open>(v, err)\<close> by a sum with \<open>Inl\<close> for the error. \<^verbatim>\<open>time.Time\<close> is a
  natural number of ticks; \<^verbatim>\<open>*time.Time\<close> is an option.
\<close>

type_synonym error = string
type_synonym Time = nat

subsection \<open>valueobjects/money.go\<close>

type_synonym Currency = string

definition CurrencyUSD :: Currency where "CurrencyUSD = ''USD''"
definition CurrencyEUR :: Currency where "CurrencyEUR = ''EUR''"
definition CurrencyGBP :: Currency where "CurrencyGBP = ''GBP''"

record 'a Money =
  Amount :: 'a
  Currency :: Currency

definition NewMoney :: "'a \<Rightarrow> Currency \<Rightarrow> 'a Money" where
  "NewMoney amount currency = \<lparr>Amount = amount, Currency = currency\<rparr>"

text \<open>\<^verbatim>\<open>Money{}\<close>, the zero value returned beside an error, is dropped: the result is
  the error alone.\<close>

definition Add :: "'a::plus Money \<Rightarrow> 'a Money \<Rightarrow> error + 'a Money" where
  "Add m other =
     (if Currency m \<noteq> Currency other then Inl ''currency mismatch''
      else Inr \<lparr>Amount = Amount m + Amount other, Currency = Currency m\<rparr>)"

definition Subtract :: "'a::minus Money \<Rightarrow> 'a Money \<Rightarrow> error + 'a Money" where
  "Subtract m other =
     (if Currency m \<noteq> Currency other then Inl ''currency mismatch''
      else Inr \<lparr>Amount = Amount m - Amount other, Currency = Currency m\<rparr>)"

definition IsPositive :: "'a::{zero,ord} Money \<Rightarrow> bool" where
  "IsPositive m \<longleftrightarrow> Amount m > 0"

definition IsZero :: "'a::zero Money \<Rightarrow> bool" where
  "IsZero m \<longleftrightarrow> Amount m = 0"

definition Multiply :: "'a::times Money \<Rightarrow> 'a \<Rightarrow> 'a Money" where
  "Multiply m factor = \<lparr>Amount = Amount m * factor, Currency = Currency m\<rparr>"

subsection \<open>entities/account.go\<close>

type_synonym AccountStatus = string

definition AccountStatusActive :: AccountStatus where "AccountStatusActive = ''active''"
definition AccountStatusSuspended :: AccountStatus where "AccountStatusSuspended = ''suspended''"
definition AccountStatusClosed :: AccountStatus where "AccountStatusClosed = ''closed''"

type_synonym AccountType = string

definition AccountTypePersonal :: AccountType where "AccountTypePersonal = ''personal''"
definition AccountTypeBusiness :: AccountType where "AccountTypeBusiness = ''business''"
definition AccountTypeEnterprise :: AccountType where "AccountTypeEnterprise = ''enterprise''"

record 'a Account =
  ID :: string
  OwnerID :: string
  Email :: string
  AccountType :: AccountType
  Status :: AccountStatus
  Balance :: 'a
  CreatedAt :: Time
  UpdatedAt :: Time

text \<open>Every method that calls \<^verbatim>\<open>time.Now()\<close> takes the reading as its last argument.\<close>

definition NewAccount :: "string \<Rightarrow> string \<Rightarrow> string \<Rightarrow> AccountType \<Rightarrow> Time \<Rightarrow> 'a::zero Account" where
  "NewAccount id' ownerID email accountType now =
     \<lparr>ID = id', OwnerID = ownerID, Email = email, AccountType = accountType,
      Status = AccountStatusActive, Balance = 0, CreatedAt = now, UpdatedAt = now\<rparr>"

definition IsActive :: "'a Account \<Rightarrow> bool" where
  "IsActive a \<longleftrightarrow> Status a = AccountStatusActive"

definition GetBalance :: "'a Account \<Rightarrow> 'a" where
  "GetBalance a = Balance a"

definition UpdateBalance :: "'a Account \<Rightarrow> 'a \<Rightarrow> Time \<Rightarrow> 'a Account" where
  "UpdateBalance a amount now = a\<lparr>Balance := amount, UpdatedAt := now\<rparr>"

definition Suspend :: "'a Account \<Rightarrow> Time \<Rightarrow> 'a Account" where
  "Suspend a now = a\<lparr>Status := AccountStatusSuspended, UpdatedAt := now\<rparr>"

definition Activate :: "'a Account \<Rightarrow> Time \<Rightarrow> 'a Account" where
  "Activate a now = a\<lparr>Status := AccountStatusActive, UpdatedAt := now\<rparr>"

subsection \<open>entities/transaction.go\<close>

type_synonym TransactionType = string

definition TransactionTypeDeposit :: TransactionType where "TransactionTypeDeposit = ''deposit''"
definition TransactionTypeWithdrawal :: TransactionType where "TransactionTypeWithdrawal = ''withdrawal''"
definition TransactionTypeTransfer :: TransactionType where "TransactionTypeTransfer = ''transfer''"

type_synonym TransactionStatus = string

definition TransactionStatusPending :: TransactionStatus where "TransactionStatusPending = ''pending''"
definition TransactionStatusCompleted :: TransactionStatus where "TransactionStatusCompleted = ''completed''"
definition TransactionStatusFailed :: TransactionStatus where "TransactionStatusFailed = ''failed''"

record 'a Transaction =
  TxID :: string
  AccountID :: string
  Type :: TransactionType
  TxStatus :: TransactionStatus
  TxAmount :: 'a
  Description :: string
  SourceAccountID :: string
  TargetAccountID :: string
  TxCreatedAt :: Time
  ProcessedAt :: "Time option"

text \<open>
  \<open>Account\<close> has fields \<open>ID\<close>, \<open>Status\<close> and \<open>CreatedAt\<close> and \<open>Money\<close> has \<open>Amount\<close>, so
  the fields of the same names of \<open>Transaction\<close> are \<open>TxID\<close>, \<open>TxStatus\<close>, \<open>TxCreatedAt\<close>
  and \<open>TxAmount\<close> here. The fields the composite literal of \<^verbatim>\<open>NewTransaction\<close> leaves
  out take Go's zero values: the empty string and the nil pointer.
\<close>

definition NewTransaction :: "string \<Rightarrow> string \<Rightarrow> TransactionType \<Rightarrow> 'a \<Rightarrow> Time \<Rightarrow> 'a Transaction" where
  "NewTransaction id' accountID txType amount now =
     \<lparr>TxID = id', AccountID = accountID, Type = txType, TxStatus = TransactionStatusPending,
      TxAmount = amount, Description = [], SourceAccountID = [], TargetAccountID = [],
      TxCreatedAt = now, ProcessedAt = None\<rparr>"

definition IsPending :: "'a Transaction \<Rightarrow> bool" where
  "IsPending t \<longleftrightarrow> TxStatus t = TransactionStatusPending"

definition IsCompleted :: "'a Transaction \<Rightarrow> bool" where
  "IsCompleted t \<longleftrightarrow> TxStatus t = TransactionStatusCompleted"

definition Complete :: "'a Transaction \<Rightarrow> Time \<Rightarrow> 'a Transaction" where
  "Complete t now = t\<lparr>TxStatus := TransactionStatusCompleted, ProcessedAt := Some now\<rparr>"

definition Fail :: "'a Transaction \<Rightarrow> Time \<Rightarrow> 'a Transaction" where
  "Fail t now = t\<lparr>TxStatus := TransactionStatusFailed, ProcessedAt := Some now\<rparr>"

section \<open>float64\<close>

text \<open>
  A \<^verbatim>\<open>float64\<close> is a finite number, an infinity or NaN. The finite number
  \<open>Finite s m e\<close> is \<open>m * 2 ^ e\<close>, negative when \<open>s\<close> holds; \<open>is_float64\<close> says that
  mantissa and exponent are those of a binary64: 53 bits, exponents from -1074 to 971,
  and a mantissa of fewer than 53 bits (a subnormal number, or zero) at the least
  exponent only. Both zeros exist. The payload and the sign of a NaN cannot be observed
  through the operations used here, so there is one NaN.

  \<open>round_float64 s M e\<close> rounds the exact value \<open>M * 2 ^ e\<close> (\<open>M > 0\<close>) to the nearest
  binary64, a tie to the even mantissa, and to an infinity when the rounded value would
  reach \<open>2 ^ 1024\<close>. The sum
  of two finite numbers is their exact sum, rounded; an exact sum of zero is \<open>+0\<close>,
  except that \<open>-0 + -0 = -0\<close>. \<open>x - y\<close> is \<open>x + (-y)\<close>. A comparison with NaN is false,
  and the two zeros are equal.

  Go's \<^verbatim>\<open>==\<close> on \<^verbatim>\<open>float64\<close> is \<open>float64_eq\<close>; it differs from the equality of HOL at
  NaN and at the two zeros. The only \<^verbatim>\<open>==\<close> on an amount in the sources is the one of
  \<open>IsZero\<close>, which no service calls.
\<close>

datatype float64 = Finite bool int int | Infinity bool | NaN

definition is_finite :: "float64 \<Rightarrow> bool" where
  "is_finite x = (case x of Finite s m e \<Rightarrow> True | Infinity s \<Rightarrow> False | NaN \<Rightarrow> False)"

definition float64_value :: "float64 \<Rightarrow> rat" where
  "float64_value x =
     (case x of
        Finite s m e \<Rightarrow> (if s then - of_int m else of_int m) * 2 powi e
      | Infinity s \<Rightarrow> 0
      | NaN \<Rightarrow> 0)"

definition round_float64 :: "bool \<Rightarrow> int \<Rightarrow> int \<Rightarrow> float64" where
  "round_float64 s M e =
     (let E = max (e + bitlen M - 53) (- 1074);
          m = (if E \<le> e then M * 2 ^ nat (e - E)
               else let q = M div 2 ^ nat (E - e);
                        r = M mod 2 ^ nat (E - e);
                        half = 2 ^ nat (E - e - 1)
                    in if half < r \<or> (r = half \<and> odd q) then q + 1 else q)
      in if m = 2 ^ 53
         then (if 971 < E + 1 then Infinity s else Finite s (2 ^ 52) (E + 1))
         else (if 971 < E then Infinity s else Finite s m E))"

definition aligned :: "bool \<Rightarrow> int \<Rightarrow> int \<Rightarrow> int \<Rightarrow> int" where
  "aligned s m e e0 = (if s then - m else m) * 2 ^ nat (e - e0)"

definition float64_add :: "float64 \<Rightarrow> float64 \<Rightarrow> float64" where
  "float64_add x y =
     (case x of
        NaN \<Rightarrow> NaN
      | Infinity sx \<Rightarrow>
          (case y of
             NaN \<Rightarrow> NaN
           | Infinity sy \<Rightarrow> if sx = sy then Infinity sx else NaN
           | Finite sy my ey \<Rightarrow> Infinity sx)
      | Finite sx mx ex \<Rightarrow>
          (case y of
             NaN \<Rightarrow> NaN
           | Infinity sy \<Rightarrow> Infinity sy
           | Finite sy my ey \<Rightarrow>
               let e0 = min ex ey;
                   M = aligned sx mx ex e0 + aligned sy my ey e0
               in if M = 0 then Finite (sx \<and> sy) 0 (- 1074)
                  else round_float64 (M < 0) \<bar>M\<bar> e0))"

definition float64_neg :: "float64 \<Rightarrow> float64" where
  "float64_neg x =
     (case x of
        Finite s m e \<Rightarrow> Finite (\<not> s) m e
      | Infinity s \<Rightarrow> Infinity (\<not> s)
      | NaN \<Rightarrow> NaN)"

definition float64_less :: "float64 \<Rightarrow> float64 \<Rightarrow> bool" where
  "float64_less x y =
     (case x of
        NaN \<Rightarrow> False
      | Infinity sx \<Rightarrow>
          (case y of
             NaN \<Rightarrow> False
           | Infinity sy \<Rightarrow> sx \<and> \<not> sy
           | Finite sy my ey \<Rightarrow> sx)
      | Finite sx mx ex \<Rightarrow>
          (case y of
             NaN \<Rightarrow> False
           | Infinity sy \<Rightarrow> \<not> sy
           | Finite sy my ey \<Rightarrow>
               aligned sx mx ex (min ex ey) < aligned sy my ey (min ex ey)))"

definition float64_eq :: "float64 \<Rightarrow> float64 \<Rightarrow> bool" where
  "float64_eq x y =
     (case x of
        NaN \<Rightarrow> False
      | Infinity sx \<Rightarrow>
          (case y of
             NaN \<Rightarrow> False
           | Infinity sy \<Rightarrow> sx = sy
           | Finite sy my ey \<Rightarrow> False)
      | Finite sx mx ex \<Rightarrow>
          (case y of
             NaN \<Rightarrow> False
           | Infinity sy \<Rightarrow> False
           | Finite sy my ey \<Rightarrow>
               aligned sx mx ex (min ex ey) = aligned sy my ey (min ex ey)))"

instantiation float64 :: "{zero, plus, minus, ord}"
begin

definition zero_float64_def: "0 = Finite False 0 (- 1074)"

definition plus_float64_def: "x + y = float64_add x y"

definition minus_float64_def: "x - y = float64_add x (float64_neg y)"

definition less_float64_def: "x < y \<longleftrightarrow> float64_less x y"

definition less_eq_float64_def: "x \<le> y \<longleftrightarrow> float64_less x y \<or> float64_eq x y"

instance ..

end

definition is_float64 :: "float64 \<Rightarrow> bool" where
  "is_float64 x =
     (case x of
        Finite s m e \<Rightarrow>
          0 \<le> m \<and> m < 2 ^ 53 \<and> - 1074 \<le> e \<and> e \<le> 971 \<and> (2 ^ 52 \<le> m \<or> e = - 1074)
      | Infinity s \<Rightarrow> True
      | NaN \<Rightarrow> True)"

definition float64_of_int :: "int \<Rightarrow> float64" where
  "float64_of_int n = (if n = 0 then 0 else round_float64 (n < 0) \<bar>n\<bar> 0)"

definition add_is_exact :: "float64 \<Rightarrow> float64 \<Rightarrow> bool" where
  "add_is_exact x y \<longleftrightarrow>
     is_finite (x + y) \<and> float64_value (x + y) = float64_value x + float64_value y"

definition sub_is_exact :: "float64 \<Rightarrow> float64 \<Rightarrow> bool" where
  "sub_is_exact x y \<longleftrightarrow>
     is_finite (x - y) \<and> float64_value (x - y) = float64_value x - float64_value y"

section \<open>The shared memory: objects behind pointers, the two in-memory stores, the clock\<close>

text \<open>
  The repositories keep \<^verbatim>\<open>map[string]*entities.Account\<close> and
  \<^verbatim>\<open>map[string]*entities.Transaction\<close>: what \<open>FindByID\<close> returns is the stored pointer,
  and a method with a pointer receiver changes the object every holder of the pointer
  sees. So a pointer is an address (\<open>ref\<close>), the objects live in \<open>account_objs\<close> and
  \<open>transaction_objs\<close>, and the maps of the stores hold addresses. \<open>fresh\<close> is the next
  address a composite literal \<^verbatim>\<open>&T{...}\<close> takes. The \<open>n\<close>-th call of \<^verbatim>\<open>time.Now()\<close>
  returns \<open>clock n\<close>; \<open>reads\<close> counts the calls made so far. The mutexes of the stores
  are not modelled: every function below is one sequential call.
\<close>

type_synonym ref = nat

record 'a world =
  account_objs :: "ref \<Rightarrow> 'a Account"
  transaction_objs :: "ref \<Rightarrow> 'a Transaction"
  fresh :: ref
  accounts :: "string \<rightharpoonup> ref"
  transactions :: "string \<rightharpoonup> ref"
  clock :: "nat \<Rightarrow> Time"
  reads :: nat

definition time_Now :: "'a world \<Rightarrow> Time" where
  "time_Now w = clock w (reads w)"

definition tick :: "'a world \<Rightarrow> 'a world" where
  "tick w = w\<lparr>reads := Suc (reads w)\<rparr>"

subsection \<open>The entity methods, called through a pointer\<close>

definition ptr_NewAccount ::
  "'a::zero world \<Rightarrow> string \<Rightarrow> string \<Rightarrow> string \<Rightarrow> AccountType \<Rightarrow> ref \<times> 'a world" where
  "ptr_NewAccount w id' ownerID email accountType =
     (fresh w,
      tick (w\<lparr>account_objs := (account_objs w)
                (fresh w := NewAccount id' ownerID email accountType (time_Now w)),
              fresh := Suc (fresh w)\<rparr>))"

definition ptr_UpdateBalance :: "'a world \<Rightarrow> ref \<Rightarrow> 'a \<Rightarrow> 'a world" where
  "ptr_UpdateBalance w a amount =
     tick (w\<lparr>account_objs := (account_objs w)
                (a := UpdateBalance (account_objs w a) amount (time_Now w))\<rparr>)"

definition ptr_Suspend :: "'a world \<Rightarrow> ref \<Rightarrow> 'a world" where
  "ptr_Suspend w a =
     tick (w\<lparr>account_objs := (account_objs w) (a := Suspend (account_objs w a) (time_Now w))\<rparr>)"

definition ptr_Activate :: "'a world \<Rightarrow> ref \<Rightarrow> 'a world" where
  "ptr_Activate w a =
     tick (w\<lparr>account_objs := (account_objs w) (a := Activate (account_objs w a) (time_Now w))\<rparr>)"

definition ptr_NewTransaction ::
  "'a world \<Rightarrow> string \<Rightarrow> string \<Rightarrow> TransactionType \<Rightarrow> 'a \<Rightarrow> ref \<times> 'a world" where
  "ptr_NewTransaction w id' accountID txType amount =
     (fresh w,
      tick (w\<lparr>transaction_objs := (transaction_objs w)
                (fresh w := NewTransaction id' accountID txType amount (time_Now w)),
              fresh := Suc (fresh w)\<rparr>))"

definition ptr_Complete :: "'a world \<Rightarrow> ref \<Rightarrow> 'a world" where
  "ptr_Complete w t =
     tick (w\<lparr>transaction_objs := (transaction_objs w)
                (t := Complete (transaction_objs w t) (time_Now w))\<rparr>)"

definition ptr_Fail :: "'a world \<Rightarrow> ref \<Rightarrow> 'a world" where
  "ptr_Fail w t =
     tick (w\<lparr>transaction_objs := (transaction_objs w)
                (t := Fail (transaction_objs w t) (time_Now w))\<rparr>)"

text \<open>The assignments \<^verbatim>\<open>tx.SourceAccountID = ...\<close> and \<^verbatim>\<open>tx.TargetAccountID = ...\<close>.\<close>

definition set_SourceAccountID :: "'a world \<Rightarrow> ref \<Rightarrow> string \<Rightarrow> 'a world" where
  "set_SourceAccountID w t v =
     w\<lparr>transaction_objs := (transaction_objs w) (t := (transaction_objs w t)\<lparr>SourceAccountID := v\<rparr>)\<rparr>"

definition set_TargetAccountID :: "'a world \<Rightarrow> ref \<Rightarrow> string \<Rightarrow> 'a world" where
  "set_TargetAccountID w t v =
     w\<lparr>transaction_objs := (transaction_objs w) (t := (transaction_objs w t)\<lparr>TargetAccountID := v\<rparr>)\<rparr>"

subsection \<open>Ranging over a Go map\<close>

text \<open>
  \<^verbatim>\<open>for _, v := range m\<close> visits every key of the map once, in an order Go leaves
  unspecified. The order is an argument \<open>ks\<close> of each function that ranges over a
  store; \<open>iteration_order m ks\<close> says that \<open>ks\<close> is such an order for \<open>m\<close>.
\<close>

primrec range_values :: "('k \<rightharpoonup> 'v) \<Rightarrow> 'k list \<Rightarrow> 'v list" where
  "range_values m [] = []"
| "range_values m (k # ks) =
     (case m k of None \<Rightarrow> range_values m ks | Some v \<Rightarrow> v # range_values m ks)"

definition iteration_order :: "('k \<rightharpoonup> 'v) \<Rightarrow> 'k list \<Rightarrow> bool" where
  "iteration_order m ks \<longleftrightarrow> distinct ks \<and> set ks = dom m"

subsection \<open>AccountRepositoryImpl (in-memory)\<close>

definition AccountRepository_FindByID :: "'a world \<Rightarrow> string \<Rightarrow> error + ref" where
  "AccountRepository_FindByID w id' =
     (case accounts w id' of None \<Rightarrow> Inl ''account not found'' | Some account \<Rightarrow> Inr account)"

definition AccountRepository_FindByOwnerID :: "'a world \<Rightarrow> string list \<Rightarrow> string \<Rightarrow> ref list" where
  "AccountRepository_FindByOwnerID w ks ownerID =
     filter (\<lambda>account. OwnerID (account_objs w account) = ownerID) (range_values (accounts w) ks)"

definition AccountRepository_FindByEmail :: "'a world \<Rightarrow> string list \<Rightarrow> string \<Rightarrow> error + ref" where
  "AccountRepository_FindByEmail w ks email =
     (case List.find (\<lambda>account. Email (account_objs w account) = email) (range_values (accounts w) ks) of
        Some account \<Rightarrow> Inr account
      | None \<Rightarrow> Inl ''account not found'')"

definition AccountRepository_Save :: "'a world \<Rightarrow> ref \<Rightarrow> error option \<times> 'a world" where
  "AccountRepository_Save w account =
     (if ID (account_objs w account) = [] then (Some ''account ID is required'', w)
      else (None, w\<lparr>accounts := (accounts w) (ID (account_objs w account) \<mapsto> account)\<rparr>))"

definition AccountRepository_Delete :: "'a world \<Rightarrow> string \<Rightarrow> error option \<times> 'a world" where
  "AccountRepository_Delete w id' =
     (case accounts w id' of
        None \<Rightarrow> (Some ''account not found'', w)
      | Some _ \<Rightarrow> (None, w\<lparr>accounts := (accounts w) (id' := None)\<rparr>))"

definition AccountRepository_GetBalance :: "'a world \<Rightarrow> string \<Rightarrow> error + 'a" where
  "AccountRepository_GetBalance w id' =
     (case accounts w id' of
        None \<Rightarrow> Inl ''account not found''
      | Some account \<Rightarrow> Inr (GetBalance (account_objs w account)))"

subsection \<open>TransactionRepositoryImpl (in-memory)\<close>

definition TransactionRepository_FindByID :: "'a world \<Rightarrow> string \<Rightarrow> error + ref" where
  "TransactionRepository_FindByID w id' =
     (case transactions w id' of None \<Rightarrow> Inl ''transaction not found'' | Some tx \<Rightarrow> Inr tx)"

definition TransactionRepository_FindByAccountID :: "'a world \<Rightarrow> string list \<Rightarrow> string \<Rightarrow> ref list" where
  "TransactionRepository_FindByAccountID w ks accountID =
     filter (\<lambda>tx. AccountID (transaction_objs w tx) = accountID) (range_values (transactions w) ks)"

definition TransactionRepository_Save :: "'a world \<Rightarrow> ref \<Rightarrow> error option \<times> 'a world" where
  "TransactionRepository_Save w tx =
     (if TxID (transaction_objs w tx) = [] then (Some ''transaction ID is required'', w)
      else (None, w\<lparr>transactions := (transactions w) (TxID (transaction_objs w tx) \<mapsto> tx)\<rparr>))"

definition TransactionRepository_GetPendingTransactions :: "'a world \<Rightarrow> string list \<Rightarrow> ref list" where
  "TransactionRepository_GetPendingTransactions w ks =
     filter (\<lambda>tx. IsPending (transaction_objs w tx)) (range_values (transactions w) ks)"

section \<open>The application services\<close>

text \<open>
  A service method that returns \<^verbatim>\<open>(*T, error)\<close> yields \<open>error + ref\<close> and the world
  it leaves; one that returns \<^verbatim>\<open>error\<close> yields \<open>error option\<close> (\<open>None\<close> for nil).
\<close>

subsection \<open>AccountService\<close>

definition generateAccountID :: string where
  "generateAccountID = ''acc_'' @ ''12345''"

definition GetAccount :: "'a world \<Rightarrow> string \<Rightarrow> error + ref" where
  "GetAccount w id' =
     (case AccountRepository_FindByID w id' of Inl err \<Rightarrow> Inl err | Inr account \<Rightarrow> Inr account)"

definition GetAccountByEmail :: "'a world \<Rightarrow> string list \<Rightarrow> string \<Rightarrow> error + ref" where
  "GetAccountByEmail w ks email = AccountRepository_FindByEmail w ks email"

definition CreateAccount ::
  "'a::zero world \<Rightarrow> string list \<Rightarrow> string \<Rightarrow> string \<Rightarrow> AccountType \<Rightarrow> (error + ref) \<times> 'a world" where
  "CreateAccount w ks ownerID email accountType =
     (case AccountRepository_FindByEmail w ks email of
        Inr existing \<Rightarrow> (Inl ''account with email already exists'', w)
      | Inl _ \<Rightarrow>
          (case ptr_NewAccount w generateAccountID ownerID email accountType of
             (account, w1) \<Rightarrow>
               (case AccountRepository_Save w1 account of
                  (Some err, w2) \<Rightarrow> (Inl err, w2)
                | (None, w2) \<Rightarrow> (Inr account, w2))))"

definition GetAccountBalance :: "'a world \<Rightarrow> string \<Rightarrow> error + 'a Money" where
  "GetAccountBalance w id' =
     (case AccountRepository_GetBalance w id' of
        Inl err \<Rightarrow> Inl err
      | Inr balance \<Rightarrow> Inr (NewMoney balance CurrencyUSD))"

definition UpdateAccountBalance :: "'a world \<Rightarrow> string \<Rightarrow> 'a \<Rightarrow> error option \<times> 'a world" where
  "UpdateAccountBalance w id' amount =
     (case AccountRepository_FindByID w id' of
        Inl err \<Rightarrow> (Some err, w)
      | Inr account \<Rightarrow> AccountRepository_Save (ptr_UpdateBalance w account amount) account)"

definition SuspendAccount :: "'a world \<Rightarrow> string \<Rightarrow> error option \<times> 'a world" where
  "SuspendAccount w id' =
     (case AccountRepository_FindByID w id' of
        Inl err \<Rightarrow> (Some err, w)
      | Inr account \<Rightarrow> AccountRepository_Save (ptr_Suspend w account) account)"

subsection \<open>TransactionService\<close>

definition generateTransactionID :: string where
  "generateTransactionID = ''tx_'' @ ''12345''"

definition GetTransaction :: "'a world \<Rightarrow> string \<Rightarrow> error + ref" where
  "GetTransaction w id' = TransactionRepository_FindByID w id'"

definition GetAccountTransactions :: "'a world \<Rightarrow> string list \<Rightarrow> string \<Rightarrow> error + ref list" where
  "GetAccountTransactions w ks accountID =
     (case AccountRepository_FindByID w accountID of
        Inl err \<Rightarrow> Inl err
      | Inr account \<Rightarrow>
          if \<not> IsActive (account_objs w account) then Inl ''account is not active''
          else Inr (TransactionRepository_FindByAccountID w ks accountID))"

definition CreateDeposit ::
  "'a::{zero,ord,plus} world \<Rightarrow> string \<Rightarrow> 'a Money \<Rightarrow> (error + ref) \<times> 'a world" where
  "CreateDeposit w accountID amount =
     (if \<not> IsPositive amount then (Inl ''deposit amount must be positive'', w)
      else case AccountRepository_FindByID w accountID of
        Inl err \<Rightarrow> (Inl err, w)
      | Inr account \<Rightarrow>
          if \<not> IsActive (account_objs w account) then (Inl ''account is not active'', w)
          else
            (case ptr_NewTransaction w generateTransactionID accountID
                    TransactionTypeDeposit (Amount amount) of
               (tx, w1) \<Rightarrow>
                 let newBalance = GetBalance (account_objs w1 account) + Amount amount;
                     w2 = ptr_UpdateBalance w1 account newBalance
                 in (case TransactionRepository_Save w2 tx of
                       (Some err, w3) \<Rightarrow> (Inl err, w3)
                     | (None, w3) \<Rightarrow>
                         (case AccountRepository_Save w3 account of
                            (Some err, w4) \<Rightarrow> (Inl err, w4)
                          | (None, w4) \<Rightarrow> (Inr tx, ptr_Complete w4 tx)))))"

definition CreateWithdrawal ::
  "'a::{zero,ord,minus} world \<Rightarrow> string \<Rightarrow> 'a Money \<Rightarrow> (error + ref) \<times> 'a world" where
  "CreateWithdrawal w accountID amount =
     (if \<not> IsPositive amount then (Inl ''withdrawal amount must be positive'', w)
      else case AccountRepository_FindByID w accountID of
        Inl err \<Rightarrow> (Inl err, w)
      | Inr account \<Rightarrow>
          if GetBalance (account_objs w account) < Amount amount then (Inl ''insufficient balance'', w)
          else
            (case ptr_NewTransaction w generateTransactionID accountID
                    TransactionTypeWithdrawal (Amount amount) of
               (tx, w1) \<Rightarrow>
                 let newBalance = GetBalance (account_objs w1 account) - Amount amount;
                     w2 = ptr_UpdateBalance w1 account newBalance
                 in (case TransactionRepository_Save w2 tx of
                       (Some err, w3) \<Rightarrow> (Inl err, w3)
                     | (None, w3) \<Rightarrow>
                         (case AccountRepository_Save w3 account of
                            (Some err, w4) \<Rightarrow> (Inl err, w4)
                          | (None, w4) \<Rightarrow> (Inr tx, ptr_Complete w4 tx)))))"

definition CreateTransfer ::
  "'a::{ord,plus,minus} world \<Rightarrow> string \<Rightarrow> string \<Rightarrow> 'a Money \<Rightarrow> (error + ref) \<times> 'a world" where
  "CreateTransfer w sourceAccountID targetAccountID amount =
     (if sourceAccountID = targetAccountID then (Inl ''cannot transfer to same account'', w)
      else case AccountRepository_FindByID w sourceAccountID of
        Inl err \<Rightarrow> (Inl ''source account not found'', w)
      | Inr sourceAccount \<Rightarrow>
     (case AccountRepository_FindByID w targetAccountID of
        Inl err \<Rightarrow> (Inl ''target account not found'', w)
      | Inr targetAccount \<Rightarrow>
          if \<not> IsActive (account_objs w sourceAccount) \<or> \<not> IsActive (account_objs w targetAccount)
          then (Inl ''both accounts must be active'', w)
          else if GetBalance (account_objs w sourceAccount) < Amount amount
          then (Inl ''insufficient balance'', w)
          else
            (case ptr_NewTransaction w generateTransactionID sourceAccountID
                    TransactionTypeTransfer (Amount amount) of
               (tx, w1) \<Rightarrow>
                 let w2 = set_SourceAccountID w1 tx sourceAccountID;
                     w3 = set_TargetAccountID w2 tx targetAccountID;
                     w4 = ptr_UpdateBalance w3 sourceAccount
                            (GetBalance (account_objs w3 sourceAccount) - Amount amount);
                     w5 = ptr_UpdateBalance w4 targetAccount
                            (GetBalance (account_objs w4 targetAccount) + Amount amount)
                 in (case TransactionRepository_Save w5 tx of
                       (Some err, w6) \<Rightarrow> (Inl err, w6)
                     | (None, w6) \<Rightarrow>
                         (case AccountRepository_Save w6 sourceAccount of
                            (Some err, w7) \<Rightarrow> (Inl err, w7)
                          | (None, w7) \<Rightarrow>
                              (case AccountRepository_Save w7 targetAccount of
                                 (Some err, w8) \<Rightarrow> (Inl err, w8)
                               | (None, w8) \<Rightarrow> (Inr tx, ptr_Complete w8 tx)))))))"

text \<open>The body of the loop of \<open>ProcessPendingTransactions\<close>, then the loop over the
  slice \<open>GetPendingTransactions\<close> returned. The error of the second \<open>Save\<close> is dropped,
  as in the source.\<close>

definition process_one :: "'a world \<Rightarrow> ref \<Rightarrow> 'a world" where
  "process_one w tx =
     (if IsPending (transaction_objs w tx) then
        (case TransactionRepository_Save (ptr_Complete w tx) tx of
           (Some err, w1) \<Rightarrow> snd (TransactionRepository_Save (ptr_Fail w1 tx) tx)
         | (None, w1) \<Rightarrow> w1)
      else w)"

primrec process_all :: "'a world \<Rightarrow> ref list \<Rightarrow> 'a world" where
  "process_all w [] = w"
| "process_all w (tx # pendingTxs) = process_all (process_one w tx) pendingTxs"

definition ProcessPendingTransactions :: "'a world \<Rightarrow> string list \<Rightarrow> error option \<times> 'a world" where
  "ProcessPendingTransactions w ks =
     (None, process_all w (TransactionRepository_GetPendingTransactions w ks))"

section \<open>Stores that \<open>Save\<close> built, and worlds to run the services in\<close>

text \<open>
  \<open>Save\<close> files a pointer under the \<open>ID\<close> of its object and refuses the empty
  \<open>ID\<close>, and no method of the entity or of a service assigns \<open>ID\<close>. So in every store
  that the repository built, each account is filed under its own non-empty \<open>ID\<close>, at
  an address already taken. An account "exists" when it is in such a store.
\<close>

definition accounts_ok :: "'a world \<Rightarrow> bool" where
  "accounts_ok w \<longleftrightarrow>
     (\<forall>k account. accounts w k = Some account \<longrightarrow>
        account < fresh w \<and> ID (account_objs w account) = k \<and> k \<noteq> [])"

text \<open>Go's zero values fill the addresses no literal has taken yet; nothing reads them.\<close>

definition zero_Account :: "'a::zero Account" where
  "zero_Account = \<lparr>ID = [], OwnerID = [], Email = [], AccountType = [], Status = [],
                    Balance = 0, CreatedAt = 0, UpdatedAt = 0\<rparr>"

definition zero_Transaction :: "'a::zero Transaction" where
  "zero_Transaction = \<lparr>TxID = [], AccountID = [], Type = [], TxStatus = [], TxAmount = 0,
                        Description = [], SourceAccountID = [], TargetAccountID = [],
                        TxCreatedAt = 0, ProcessedAt = None\<rparr>"

text \<open>\<open>NewAccountRepository\<close> and \<open>NewTransactionRepository\<close>: two empty maps.\<close>

definition NewWorld :: "(nat \<Rightarrow> Time) \<Rightarrow> 'a::zero world" where
  "NewWorld clk = \<lparr>account_objs = (\<lambda>_. zero_Account), transaction_objs = (\<lambda>_. zero_Transaction),
                    fresh = 0, accounts = Map.empty, transactions = Map.empty,
                    clock = clk, reads = 0\<rparr>"

text \<open>
  The worlds of the examples. \<open>CreateAccount\<close> gives every account the same \<open>ID\<close>, so
  a store with two accounts is built as a caller of the repository does:
  \<open>NewAccount\<close> with a chosen \<open>ID\<close>, then \<open>Save\<close>.
\<close>

definition open_account :: "'a::zero world \<Rightarrow> string \<Rightarrow> string \<Rightarrow> string \<Rightarrow> 'a world" where
  "open_account w id' ownerID email =
     (case ptr_NewAccount w id' ownerID email AccountTypePersonal of
        (account, w1) \<Rightarrow> snd (AccountRepository_Save w1 account))"

definition two_accounts :: "int world" where
  "two_accounts =
     open_account (open_account (NewWorld (\<lambda>n. n)) ''acc1'' ''alice'' ''alice@example.com'')
       ''acc2'' ''bob'' ''bob@example.com''"

text \<open>The scenario of the specification: 100 deposited into \<open>acc1\<close>. And a store where
  \<open>UpdateAccountBalance\<close>, which accepts any value, has left \<open>acc1\<close> at -10.\<close>

definition funded :: "int world" where
  "funded = snd (CreateDeposit two_accounts ''acc1'' (NewMoney 100 CurrencyUSD))"

definition overdrawn :: "int world" where
  "overdrawn = snd (UpdateAccountBalance two_accounts ''acc1'' (- 10))"

text \<open>The transfer of the scenario: 40 from \<open>acc1\<close> to \<open>acc2\<close>. And two accounts made by
  \<open>CreateAccount\<close>, one after the other, in an empty store.\<close>

definition transfer_call :: "(error + ref) \<times> int world" where
  "transfer_call = CreateTransfer funded ''acc1'' ''acc2'' (NewMoney 40 CurrencyUSD)"

definition transferred :: "int world" where
  "transferred = snd transfer_call"

definition alice_created :: "(error + ref) \<times> int world" where
  "alice_created =
     CreateAccount (NewWorld (\<lambda>n. n)) [] ''alice'' ''alice@example.com'' AccountTypePersonal"

definition bob_created :: "(error + ref) \<times> int world" where
  "bob_created =
     CreateAccount (snd alice_created) [''acc_12345''] ''bob'' ''bob@example.com'' AccountTypePersonal"

text \<open>
  The same store with \<^verbatim>\<open>float64\<close> amounts: after a deposit of 100; after deposits of
  \<open>10 ^ 16\<close> into \<open>acc1\<close> and of 1 into \<open>acc2\<close>, and the transfer of 1 between them; after two
  deposits of \<open>2 ^ 1023\<close> (about 8.99e307) into \<open>acc1\<close>, and the withdrawal of the whole
  balance.
\<close>

definition two_accounts_f64 :: "float64 world" where
  "two_accounts_f64 =
     open_account (open_account (NewWorld (\<lambda>n. n)) ''acc1'' ''alice'' ''alice@example.com'')
       ''acc2'' ''bob'' ''bob@example.com''"

definition funded_f64 :: "float64 world" where
  "funded_f64 = snd (CreateDeposit two_accounts_f64 ''acc1'' (NewMoney (float64_of_int 100) CurrencyUSD))"

definition large_and_small :: "float64 world" where
  "large_and_small =
     snd (CreateDeposit
           (snd (CreateDeposit two_accounts_f64 ''acc1''
                   (NewMoney (float64_of_int 10000000000000000) CurrencyUSD)))
           ''acc2'' (NewMoney (float64_of_int 1) CurrencyUSD))"

definition transfer_one :: "(error + ref) \<times> float64 world" where
  "transfer_one =
     CreateTransfer large_and_small ''acc1'' ''acc2'' (NewMoney (float64_of_int 1) CurrencyUSD)"

definition overflowed :: "float64 world" where
  "overflowed =
     snd (CreateDeposit
           (snd (CreateDeposit two_accounts_f64 ''acc1''
                   (NewMoney (Finite False 4503599627370496 971) CurrencyUSD)))
           ''acc1'' (NewMoney (Finite False 4503599627370496 971) CurrencyUSD))"

definition withdraw_all :: "(error + ref) \<times> float64 world" where
  "withdraw_all = CreateWithdrawal overflowed ''acc1'' (NewMoney (Infinity False) CurrencyUSD)"

section \<open>Sequences of operations on one transaction\<close>

text \<open>
  The terminal statuses, and the operations that write the status of a transaction:
  \<open>Complete\<close> and \<open>Fail\<close> called through a pointer \<open>tx\<close>, and
  \<open>ProcessPendingTransactions\<close> (with the order in which it ranges over the store).
\<close>

definition terminal :: "'a Transaction \<Rightarrow> bool" where
  "terminal t \<longleftrightarrow>
     TxStatus t = TransactionStatusCompleted \<or> TxStatus t = TransactionStatusFailed"

datatype tx_op = OpComplete | OpFail | OpProcessPendingTransactions "string list"

primrec apply_op :: "ref \<Rightarrow> 'a world \<Rightarrow> tx_op \<Rightarrow> 'a world" where
  "apply_op tx w OpComplete = ptr_Complete w tx"
| "apply_op tx w OpFail = ptr_Fail w tx"
| "apply_op tx w (OpProcessPendingTransactions ks) = snd (ProcessPendingTransactions w ks)"

definition apply_ops :: "ref \<Rightarrow> 'a world \<Rightarrow> tx_op list \<Rightarrow> 'a world" where
  "apply_ops tx w ops = foldl (apply_op tx) w ops"

section \<open>The states a transfer passes through\<close>

text \<open>
  \<open>CreateTransfer\<close> holds no lock of its own: the stores lock inside each of their
  methods only, and \<open>UpdateBalance\<close> writes without one. Each statement from line 157
  on therefore leaves a state of the shared memory that another caller can read.
  \<open>CreateTransfer_states\<close> lists them in order, with the tests and the early returns
  of \<open>CreateTransfer\<close>: after \<open>NewTransaction\<close>, the two assignments, the debit, the
  credit, the three \<open>Save\<close>s and \<open>Complete\<close>.
\<close>

definition CreateTransfer_states ::
  "'a::{ord,plus,minus} world \<Rightarrow> string \<Rightarrow> string \<Rightarrow> 'a Money \<Rightarrow> 'a world list" where
  "CreateTransfer_states w sourceAccountID targetAccountID amount =
     (if sourceAccountID = targetAccountID then []
      else case AccountRepository_FindByID w sourceAccountID of
        Inl err \<Rightarrow> []
      | Inr sourceAccount \<Rightarrow>
     (case AccountRepository_FindByID w targetAccountID of
        Inl err \<Rightarrow> []
      | Inr targetAccount \<Rightarrow>
          if \<not> IsActive (account_objs w sourceAccount) \<or> \<not> IsActive (account_objs w targetAccount)
          then []
          else if GetBalance (account_objs w sourceAccount) < Amount amount
          then []
          else
            (case ptr_NewTransaction w generateTransactionID sourceAccountID
                    TransactionTypeTransfer (Amount amount) of
               (tx, w1) \<Rightarrow>
                 let w2 = set_SourceAccountID w1 tx sourceAccountID;
                     w3 = set_TargetAccountID w2 tx targetAccountID;
                     w4 = ptr_UpdateBalance w3 sourceAccount
                            (GetBalance (account_objs w3 sourceAccount) - Amount amount);
                     w5 = ptr_UpdateBalance w4 targetAccount
                            (GetBalance (account_objs w4 targetAccount) + Amount amount)
                 in [w1, w2, w3, w4, w5] @
                    (case TransactionRepository_Save w5 tx of
                       (Some err, w6) \<Rightarrow> []
                     | (None, w6) \<Rightarrow> w6 #
                         (case AccountRepository_Save w6 sourceAccount of
                            (Some err, w7) \<Rightarrow> []
                          | (None, w7) \<Rightarrow> w7 #
                              (case AccountRepository_Save w7 targetAccount of
                                 (Some err, w8) \<Rightarrow> []
                               | (None, w8) \<Rightarrow> [w8, ptr_Complete w8 tx]))))))"

text \<open>The states of the transfer of the scenario.\<close>

definition transfer_states :: "int world list" where
  "transfer_states = CreateTransfer_states funded ''acc1'' ''acc2'' (NewMoney 40 CurrencyUSD)"

section \<open>Arithmetic of float64\<close>

text \<open>Adding zero to a binary64 other than zero returns it unchanged, a number minus
  itself is \<open>+0\<close>, \<open><\<close> is irreflexive, and \<open>a \<le> b\<close> excludes \<open>b < a\<close>. Then the values
  of the examples.\<close>

lemma float64_zero_less: "(0::float64) < Finite False m e \<longleftrightarrow> 0 < m"
  by (simp add: less_float64_def float64_less_def zero_float64_def aligned_def
      zero_less_mult_iff)

lemma bitlen_53: "2 ^ 52 \<le> m \<Longrightarrow> m < 2 ^ 53 \<Longrightarrow> bitlen m = 53"
  by (intro antisym) (simp_all add: bitlen_le_iff_power bitlen_ge_iff_power)

lemma bitlen_le_52: "m < 2 ^ 52 \<Longrightarrow> bitlen m \<le> 52"
  by (simp add: bitlen_le_iff_power)

lemma round_float64_normal:
  assumes "2 ^ 52 \<le> m" "m < 2 ^ 53" "e \<le> 971" "- 1074 \<le> e"
  shows "round_float64 s (m * 2 ^ k) (e - int k) = Finite s m e"
proof -
  from assms have pos: "0 < m" by simp
  have len: "bitlen (m * 2 ^ k) = 53 + int k"
    using pos assms by (simp add: bitlen_53)
  show ?thesis
  proof (cases "k = 0")
    case True
    with assms len show ?thesis
      by (simp add: round_float64_def Let_def bitlen_53)
  next
    case False
    then have half: "(0::int) < 2 ^ (k - Suc 0)" by simp
    from False assms len half show ?thesis
      by (simp add: round_float64_def Let_def max_def nat_diff_distrib)
  qed
qed

lemma round_float64_subnormal:
  assumes "0 < m" "m < 2 ^ 52"
  shows "round_float64 s m (- 1074) = Finite s m (- 1074)"
proof -
  from assms have "bitlen m \<le> 52" by (simp add: bitlen_le_52)
  with assms show ?thesis
    by (simp add: round_float64_def Let_def max_def)
qed

lemma float64_zero_add:
  assumes "is_float64 (Finite s m e)" and "m \<noteq> 0"
  shows "0 + Finite s m e = Finite s m e"
proof -
  from assms have m: "0 < m" "m < 2 ^ 53" and e: "- 1074 \<le> e" "e \<le> 971"
    and shape: "2 ^ 52 \<le> m \<or> e = - 1074"
    by (auto simp: is_float64_def)
  define k where "k = nat (e + 1074)"
  with e have ek: "e - int k = - 1074" "nat (e + 1074) = k" by simp_all
  from m have sign: "\<not> m * 2 ^ k < 0" "m * 2 ^ k \<noteq> 0" "0 < m * 2 ^ k"
    by (simp_all add: mult_less_0_iff)
  have sum: "0 + Finite s m e = round_float64 s (m * 2 ^ k) (- 1074)"
    using m e ek sign
    by (cases s) (simp_all add: plus_float64_def float64_add_def zero_float64_def aligned_def Let_def
        min_def abs_mult mult_less_0_iff)
  show ?thesis
  proof (cases "2 ^ 52 \<le> m")
    case True
    from round_float64_normal [OF True m(2) e(2) e(1), of s k] ek sum show ?thesis
      by simp
  next
    case False
    with shape have "e = - 1074" by simp
    with ek have "k = 0" by simp
    with sum False m \<open>e = - 1074\<close> show ?thesis
      by (simp add: round_float64_subnormal)
  qed
qed


lemma float64_less_irrefl: "\<not> (x::float64) < x"
  by (cases x) (simp_all add: less_float64_def float64_less_def)

lemma float64_le_not_less: "(a::float64) \<le> b \<Longrightarrow> \<not> b < a"
  by (cases a; cases b)
     (auto simp: less_eq_float64_def less_float64_def float64_less_def float64_eq_def min.commute)

lemma float64_sub_self: "Finite s m e - Finite s m e = 0"
  by (simp add: minus_float64_def float64_add_def float64_neg_def zero_float64_def aligned_def)

lemma float64_of_int_values:
  "float64_of_int 1 = Finite False 4503599627370496 (- 52)"
  "float64_of_int 40 = Finite False 5629499534213120 (- 47)"
  "float64_of_int 100 = Finite False 7036874417766400 (- 46)"
  "float64_of_int 10000000000000000 = Finite False 5000000000000000 1"
  by code_simp+

lemma float64_examples:
  "Finite False 7036874417766400 (- 46) - Finite False 5629499534213120 (- 47) =
     Finite False 8444249301319680 (- 47)"
  "Finite False 5000000000000000 1 - Finite False 4503599627370496 (- 52) =
     Finite False 5000000000000000 1"
  "Finite False 4503599627370496 (- 52) + Finite False 4503599627370496 (- 52) =
     Finite False 4503599627370496 (- 51)"
  "Finite False 5000000000000000 1 + Finite False 4503599627370496 (- 52) =
     Finite False 5000000000000000 1"
  "Finite False 5000000000000000 1 + Finite False 4503599627370496 (- 51) =
     Finite False 5000000000000001 1"
  "Finite False 4503599627370496 971 + Finite False 4503599627370496 971 = Infinity False"
  "Infinity False - Infinity False = NaN"
  "\<not> Finite False 7036874417766400 (- 46) < Finite False 5629499534213120 (- 47)"
  "Finite False 5629499534213120 (- 47) \<le> Finite False 7036874417766400 (- 46)"
  "\<not> Finite False 5000000000000000 1 < Finite False 4503599627370496 (- 52)"
  "(0::float64) < Infinity False"
  by code_simp+

lemma float64_value_examples:
  "float64_value (Finite False 7036874417766400 (- 46)) = 100"
  "float64_value (Finite False 5629499534213120 (- 47)) = 40"
  "float64_value (Finite False 8444249301319680 (- 47)) = 60"
  "float64_value (Finite False 5000000000000000 1) = 10000000000000000"
  "float64_value (Finite False 4503599627370496 (- 52)) = 1"
  "float64_value (Finite False 4503599627370496 (- 51)) = 2"
  by code_simp+

lemma float64_value_zero: "float64_value 0 = 0"
  by (simp add: float64_value_def zero_float64_def)

text \<open>Whatever is rounded, the result is a binary64: the sum and the difference of
  two values always satisfy \<open>is_float64\<close>.\<close>

lemma bitlen_pos_bounds:
  assumes "0 < M"
  obtains l where "bitlen M = int l" "0 < l" "2 ^ (l - 1) \<le> M" "M < 2 ^ l"
proof -
  from assms have "2 ^ nat (bitlen M - 1) \<le> M \<and> M < 2 ^ nat (bitlen M)"
    by (rule bitlen_bounds)
  moreover from assms have "0 < bitlen M"
    using bitlen_eq_zero_iff [of M] bitlen_nonneg [of M] by linarith
  ultimately show ?thesis
    using that [of "nat (bitlen M)"] by (simp add: nat_diff_distrib)
qed

lemma round_left_is_float64:
  assumes "2 ^ (l - 1) \<le> M" "M < 2 ^ l" "0 < l" "l + d \<le> 53" "- 1074 \<le> E"
    and "l + d = 53 \<or> E = - 1074"
  shows "is_float64
           (if M * 2 ^ d = 2 ^ 53
            then (if 971 < E + 1 then Infinity s else Finite s (2 ^ 52) (E + 1))
            else (if 971 < E then Infinity s else Finite s (M * 2 ^ d) E))"
proof -
  have pos: "(0::int) \<le> M * 2 ^ d"
    using assms(1) by (simp add: order_trans [of 0 "2 ^ (l - 1)" M])
  have "M * 2 ^ d < 2 ^ l * 2 ^ d"
    using assms(2) by simp
  also have "\<dots> = (2::int) ^ (l + d)"
    by (simp add: power_add)
  also have "\<dots> \<le> 2 ^ 53"
    using assms(4) by (intro power_increasing) simp_all
  finally have upper: "M * 2 ^ d < 2 ^ 53" .
  have lower: "2 ^ 52 \<le> M * 2 ^ d" if "l + d = 53"
  proof -
    from that assms(3) have "(2::int) ^ 52 = 2 ^ (l - 1) * 2 ^ d"
      by (simp flip: power_add)
    also have "\<dots> \<le> M * 2 ^ d"
      using assms(1) by (intro mult_right_mono) simp_all
    finally show ?thesis .
  qed
  show ?thesis
    using pos upper lower assms(5,6) by (auto simp: is_float64_def)
qed


lemma div_upper:
  assumes "(M::int) < 2 ^ 53 * 2 ^ k"
  shows "M div 2 ^ k < 2 ^ 53"
proof (rule ccontr)
  assume "\<not> M div 2 ^ k < 2 ^ 53"
  then have "(2::int) ^ 53 * 2 ^ k \<le> (M div 2 ^ k) * 2 ^ k"
    by (intro mult_right_mono) simp_all
  also have "\<dots> \<le> (M div 2 ^ k) * 2 ^ k + M mod 2 ^ k"
    by simp
  also have "\<dots> = M"
    by (rule div_mult_mod_eq)
  finally show False
    using assms by simp
qed

lemma div_lower:
  assumes "(2::int) ^ 52 * 2 ^ k \<le> M"
  shows "2 ^ 52 \<le> M div 2 ^ k"
proof -
  have "(2::int) ^ 52 * 2 ^ k div 2 ^ k \<le> M div 2 ^ k"
    using assms by (intro zdiv_mono1) simp_all
  then show ?thesis
    by simp
qed

lemma round_right_is_float64:
  assumes "2 ^ (l - 1) \<le> M" "M < 2 ^ l" "0 < l" "l \<le> 53 + k" "- 1074 \<le> E"
    and "l = 53 + k \<or> E = - 1074"
    and "m = M div 2 ^ k \<or> m = M div 2 ^ k + 1"
  shows "is_float64
           (if m = 2 ^ 53
            then (if 971 < E + 1 then Infinity s else Finite s (2 ^ 52) (E + 1))
            else (if 971 < E then Infinity s else Finite s m E))"
proof -
  have "(0::int) \<le> M"
    using assms(1) by (simp add: order_trans [of 0 "2 ^ (l - 1)" M])
  then have q0: "0 \<le> M div 2 ^ k"
    by (simp add: pos_imp_zdiv_nonneg_iff)
  have le: "(2::int) ^ l \<le> 2 ^ (53 + k)"
    using assms(4) by (intro power_increasing) simp_all
  from assms(2) le have "M < 2 ^ (53 + k)"
    by (rule less_le_trans)
  then have q1: "M div 2 ^ k < 2 ^ 53"
    by (intro div_upper) (simp add: power_add)
  have q2: "2 ^ 52 \<le> M div 2 ^ k" if "l = 53 + k"
    using assms(1) that by (intro div_lower) (simp add: power_add)
  from q0 q1 assms(7) have m: "0 \<le> m" "m \<le> 2 ^ 53"
    by auto
  from q2 assms(6,7) have shape: "2 ^ 52 \<le> m \<or> E = - 1074"
    by auto
  show ?thesis
    using m shape assms(5) by (auto simp: is_float64_def)
qed


lemma round_float64_is_float64:
  assumes "0 < M"
  shows "is_float64 (round_float64 s M e)"
proof -
  from assms obtain l where l: "bitlen M = int l" "0 < l" "2 ^ (l - 1) \<le> M" "M < 2 ^ l"
    by (rule bitlen_pos_bounds)
  define E where "E = max (e + int l - 53) (- 1074)"
  have E: "- 1074 \<le> E" "e + int l - 53 \<le> E" "E = e + int l - 53 \<or> E = - 1074"
    by (auto simp: E_def max_def)
  show ?thesis
  proof (cases "E \<le> e")
    case True
    define d where "d = nat (e - E)"
    from True E(2) have d: "l + d \<le> 53" "int d = e - E"
      by (simp_all add: d_def)
    from True E(3) d(2) have "l + d = 53 \<or> E = - 1074"
      by auto
    note canonical = round_left_is_float64 [OF l(3,4,2) d(1) E(1) this, of s]
    have "round_float64 s M e =
            (if M * 2 ^ d = 2 ^ 53
             then (if 971 < E + 1 then Infinity s else Finite s (2 ^ 52) (E + 1))
             else (if 971 < E then Infinity s else Finite s (M * 2 ^ d) E))"
      using True by (simp add: round_float64_def Let_def l(1) E_def [symmetric] d_def)
    with canonical show ?thesis
      by (simp only:)
  next
    case False
    define k where "k = nat (E - e)"
    from False E(2) have k: "l \<le> 53 + k" "int k = E - e"
      by (simp_all add: k_def)
    from False E(3) k(2) have shape: "l = 53 + k \<or> E = - 1074"
      by auto
    define m where "m =
      (if 2 ^ nat (E - e - 1) < M mod 2 ^ k \<or>
          (M mod 2 ^ k = 2 ^ nat (E - e - 1) \<and> odd (M div 2 ^ k))
       then M div 2 ^ k + 1 else M div 2 ^ k)"
    then have "m = M div 2 ^ k \<or> m = M div 2 ^ k + 1"
      by auto
    note canonical = round_right_is_float64 [OF l(3,4,2) k(1) E(1) shape this, of s]
    have "round_float64 s M e =
            (if m = 2 ^ 53
             then (if 971 < E + 1 then Infinity s else Finite s (2 ^ 52) (E + 1))
             else (if 971 < E then Infinity s else Finite s m E))"
      using False by (simp add: round_float64_def Let_def l(1) E_def [symmetric] k_def m_def)
    with canonical show ?thesis
      by (simp only:)
  qed
qed

lemma float64_add_is_float64: "is_float64 (x + y)"
proof (cases x)
  case (Finite sx mx ex)
  show ?thesis
  proof (cases y)
    case (Finite sy my ey)
    show ?thesis
      using \<open>x = Finite sx mx ex\<close> Finite
      by (simp add: plus_float64_def float64_add_def Let_def round_float64_is_float64)
        (simp add: is_float64_def)
  qed (simp_all add: plus_float64_def float64_add_def is_float64_def \<open>x = Finite sx mx ex\<close>)
qed (cases y; simp add: plus_float64_def float64_add_def is_float64_def)+

lemma float64_sub_is_float64: "is_float64 (x - y)"
  unfolding minus_float64_def plus_float64_def [symmetric] by (rule float64_add_is_float64)

lemma Amount_NewMoney: "Amount (NewMoney a c) = a"
  by (simp add: NewMoney_def)

lemmas float64_simps = float64_of_int_values float64_zero_less float64_zero_add is_float64_def
  float64_examples

section \<open>Running the services\<close>

lemmas repo_defs = AccountRepository_FindByID_def AccountRepository_Save_def
  TransactionRepository_Save_def AccountRepository_GetBalance_def

lemmas ptr_defs = ptr_NewTransaction_def ptr_UpdateBalance_def ptr_Complete_def ptr_Fail_def
  set_SourceAccountID_def set_TargetAccountID_def tick_def time_Now_def

lemmas entity_defs = NewTransaction_def UpdateBalance_def Complete_def Fail_def GetBalance_def

lemma generateTransactionID_nonempty: "generateTransactionID \<noteq> []"
  by (simp add: generateTransactionID_def)

lemma FindByID_Inr:
  "AccountRepository_FindByID w k = Inr account \<longleftrightarrow> accounts w k = Some account"
  by (simp add: AccountRepository_FindByID_def split: option.splits)

text \<open>
  The world a successful call leaves, written out. The three readings of the clock
  are those of \<open>NewTransaction\<close>, \<open>UpdateBalance\<close> and \<open>Complete\<close>, in this order.
\<close>

lemma CreateDeposit_run:
  assumes "IsPositive amount"
    and "accounts w accountID = Some account"
    and "IsActive (account_objs w account)"
    and "ID (account_objs w account) \<noteq> []"
  shows "CreateDeposit w accountID amount =
     (Inr (fresh w),
      w\<lparr>account_objs := (account_objs w)
           (account := (account_objs w account)
              \<lparr>Balance := Balance (account_objs w account) + Amount amount,
               UpdatedAt := clock w (Suc (reads w))\<rparr>),
        transaction_objs := (transaction_objs w)
           (fresh w := Complete (NewTransaction generateTransactionID accountID TransactionTypeDeposit
                          (Amount amount) (clock w (reads w))) (clock w (Suc (Suc (reads w))))),
        fresh := Suc (fresh w),
        accounts := (accounts w) (ID (account_objs w account) \<mapsto> account),
        transactions := (transactions w) (generateTransactionID \<mapsto> fresh w),
        reads := Suc (Suc (Suc (reads w)))\<rparr>)"
  using assms
  by (simp add: CreateDeposit_def repo_defs ptr_defs entity_defs Let_def generateTransactionID_nonempty)

lemma CreateWithdrawal_run:
  assumes "IsPositive amount"
    and "accounts w accountID = Some account"
    and "\<not> Balance (account_objs w account) < Amount amount"
    and "ID (account_objs w account) \<noteq> []"
  shows "CreateWithdrawal w accountID amount =
     (Inr (fresh w),
      w\<lparr>account_objs := (account_objs w)
           (account := (account_objs w account)
              \<lparr>Balance := Balance (account_objs w account) - Amount amount,
               UpdatedAt := clock w (Suc (reads w))\<rparr>),
        transaction_objs := (transaction_objs w)
           (fresh w := Complete (NewTransaction generateTransactionID accountID TransactionTypeWithdrawal
                          (Amount amount) (clock w (reads w))) (clock w (Suc (Suc (reads w))))),
        fresh := Suc (fresh w),
        accounts := (accounts w) (ID (account_objs w account) \<mapsto> account),
        transactions := (transactions w) (generateTransactionID \<mapsto> fresh w),
        reads := Suc (Suc (Suc (reads w)))\<rparr>)"
  using assms
  by (simp add: CreateWithdrawal_def repo_defs ptr_defs entity_defs Let_def generateTransactionID_nonempty)

lemma CreateTransfer_run:
  assumes "sourceAccountID \<noteq> targetAccountID"
    and "accounts w sourceAccountID = Some sourceAccount"
    and "accounts w targetAccountID = Some targetAccount"
    and "IsActive (account_objs w sourceAccount)"
    and "IsActive (account_objs w targetAccount)"
    and "\<not> Balance (account_objs w sourceAccount) < Amount amount"
    and "ID (account_objs w sourceAccount) \<noteq> []"
    and "ID (account_objs w targetAccount) \<noteq> []"
    and "sourceAccount \<noteq> targetAccount"
  shows "CreateTransfer w sourceAccountID targetAccountID amount =
     (Inr (fresh w),
      w\<lparr>account_objs := (account_objs w)
           (sourceAccount := (account_objs w sourceAccount)
              \<lparr>Balance := Balance (account_objs w sourceAccount) - Amount amount,
               UpdatedAt := clock w (Suc (reads w))\<rparr>,
            targetAccount := (account_objs w targetAccount)
              \<lparr>Balance := Balance (account_objs w targetAccount) + Amount amount,
               UpdatedAt := clock w (Suc (Suc (reads w)))\<rparr>),
        transaction_objs := (transaction_objs w)
           (fresh w := Complete ((NewTransaction generateTransactionID sourceAccountID TransactionTypeTransfer
                          (Amount amount) (clock w (reads w)))
                          \<lparr>SourceAccountID := sourceAccountID, TargetAccountID := targetAccountID\<rparr>)
                        (clock w (Suc (Suc (Suc (reads w)))))),
        fresh := Suc (fresh w),
        accounts := (accounts w) (ID (account_objs w sourceAccount) \<mapsto> sourceAccount,
                                  ID (account_objs w targetAccount) \<mapsto> targetAccount),
        transactions := (transactions w) (generateTransactionID \<mapsto> fresh w),
        reads := Suc (Suc (Suc (Suc (reads w))))\<rparr>)"
  using assms
  by (simp add: CreateTransfer_def repo_defs ptr_defs entity_defs Let_def generateTransactionID_nonempty)

subsection \<open>The example worlds, evaluated\<close>

lemma two_accounts_eval:
  "two_accounts =
     \<lparr>account_objs = (\<lambda>_. zero_Account)
        (0 := NewAccount ''acc1'' ''alice'' ''alice@example.com'' AccountTypePersonal 0,
         Suc 0 := NewAccount ''acc2'' ''bob'' ''bob@example.com'' AccountTypePersonal 1),
      transaction_objs = (\<lambda>_. zero_Transaction),
      fresh = 2, accounts = [''acc1'' \<mapsto> 0, ''acc2'' \<mapsto> 1], transactions = Map.empty,
      clock = (\<lambda>n. n), reads = 2\<rparr>"
  by (simp add: two_accounts_def open_account_def NewWorld_def ptr_NewAccount_def
      AccountRepository_Save_def tick_def time_Now_def NewAccount_def numeral_2_eq_2)

lemma two_accounts_ok: "accounts_ok two_accounts"
  by (auto simp: two_accounts_eval accounts_ok_def NewAccount_def split: if_splits)

lemma funded_eval:
  "funded =
     \<lparr>account_objs = (\<lambda>_. zero_Account)
        (0 := (NewAccount ''acc1'' ''alice'' ''alice@example.com'' AccountTypePersonal 0)
                \<lparr>Balance := 100, UpdatedAt := 3\<rparr>,
         Suc 0 := NewAccount ''acc2'' ''bob'' ''bob@example.com'' AccountTypePersonal 1),
      transaction_objs = (\<lambda>_. zero_Transaction)
        (2 := Complete (NewTransaction ''tx_12345'' ''acc1'' ''deposit'' 100 2) 4),
      fresh = 3, accounts = [''acc1'' \<mapsto> 0, ''acc2'' \<mapsto> 1],
      transactions = [''tx_12345'' \<mapsto> 2],
      clock = (\<lambda>n. n), reads = 5\<rparr>"
  by (simp add: funded_def two_accounts_eval CreateDeposit_def repo_defs ptr_defs entity_defs
      IsPositive_def IsActive_def NewMoney_def NewAccount_def generateTransactionID_def
      TransactionTypeDeposit_def Let_def fun_upd_twist)

lemma overdrawn_eval:
  "overdrawn =
     \<lparr>account_objs = (\<lambda>_. zero_Account)
        (0 := (NewAccount ''acc1'' ''alice'' ''alice@example.com'' AccountTypePersonal 0)
                \<lparr>Balance := - 10, UpdatedAt := 2\<rparr>,
         Suc 0 := NewAccount ''acc2'' ''bob'' ''bob@example.com'' AccountTypePersonal 1),
      transaction_objs = (\<lambda>_. zero_Transaction),
      fresh = 2, accounts = [''acc1'' \<mapsto> 0, ''acc2'' \<mapsto> 1],
      transactions = Map.empty,
      clock = (\<lambda>n. n), reads = 3\<rparr>"
  by (simp add: overdrawn_def two_accounts_eval UpdateAccountBalance_def repo_defs ptr_defs entity_defs
      NewAccount_def fun_upd_twist)

lemma funded_ok: "accounts_ok funded"
  by (auto simp: funded_eval accounts_ok_def NewAccount_def split: if_splits)

lemma transferred_eval:
  "transferred =
     \<lparr>account_objs = (\<lambda>_. zero_Account)
        (0 := (NewAccount ''acc1'' ''alice'' ''alice@example.com'' AccountTypePersonal 0)
                \<lparr>Balance := 60, UpdatedAt := 6\<rparr>,
         Suc 0 := (NewAccount ''acc2'' ''bob'' ''bob@example.com'' AccountTypePersonal 1)
                \<lparr>Balance := 40, UpdatedAt := 7\<rparr>),
      transaction_objs = (\<lambda>_. zero_Transaction)
        (2 := Complete (NewTransaction ''tx_12345'' ''acc1'' ''deposit'' 100 2) 4,
         3 := Complete ((NewTransaction ''tx_12345'' ''acc1'' ''transfer'' 40 5)
                \<lparr>SourceAccountID := ''acc1'', TargetAccountID := ''acc2''\<rparr>) 8),
      fresh = 4, accounts = [''acc1'' \<mapsto> 0, ''acc2'' \<mapsto> 1],
      transactions = [''tx_12345'' \<mapsto> 3],
      clock = (\<lambda>n. n), reads = 9\<rparr>"
  by (simp add: transferred_def transfer_call_def funded_eval CreateTransfer_def repo_defs ptr_defs
      entity_defs IsActive_def NewMoney_def NewAccount_def generateTransactionID_def
      AccountStatusActive_def TransactionTypeTransfer_def Let_def fun_upd_twist)

lemma two_accounts_f64_eval:
  "two_accounts_f64 =
     \<lparr>account_objs = (\<lambda>_. zero_Account)
        (0 := NewAccount ''acc1'' ''alice'' ''alice@example.com'' AccountTypePersonal 0,
         Suc 0 := NewAccount ''acc2'' ''bob'' ''bob@example.com'' AccountTypePersonal 1),
      transaction_objs = (\<lambda>_. zero_Transaction),
      fresh = 2, accounts = [''acc1'' \<mapsto> 0, ''acc2'' \<mapsto> 1], transactions = Map.empty,
      clock = (\<lambda>n. n), reads = 2\<rparr>"
  by (simp add: two_accounts_f64_def open_account_def NewWorld_def ptr_NewAccount_def
      AccountRepository_Save_def tick_def time_Now_def NewAccount_def numeral_2_eq_2)

lemma funded_f64_eval:
  "funded_f64 =
     \<lparr>account_objs = (\<lambda>_. zero_Account)
        (0 := (NewAccount ''acc1'' ''alice'' ''alice@example.com'' AccountTypePersonal 0)
                \<lparr>Balance := Finite False 7036874417766400 (- 46), UpdatedAt := 3\<rparr>,
         Suc 0 := NewAccount ''acc2'' ''bob'' ''bob@example.com'' AccountTypePersonal 1),
      transaction_objs = (\<lambda>_. zero_Transaction)
        (2 := Complete (NewTransaction ''tx_12345'' ''acc1'' ''deposit''
                 (Finite False 7036874417766400 (- 46)) 2) 4),
      fresh = 3, accounts = [''acc1'' \<mapsto> 0, ''acc2'' \<mapsto> 1],
      transactions = [''tx_12345'' \<mapsto> 2],
      clock = (\<lambda>n. n), reads = 5\<rparr>"
  by (simp add: funded_f64_def two_accounts_f64_eval CreateDeposit_def repo_defs ptr_defs entity_defs
      IsPositive_def IsActive_def NewMoney_def NewAccount_def generateTransactionID_def
      TransactionTypeDeposit_def Let_def fun_upd_twist float64_simps)

lemma large_and_small_eval:
  "large_and_small =
     \<lparr>account_objs = (\<lambda>_. zero_Account)
        (0 := (NewAccount ''acc1'' ''alice'' ''alice@example.com'' AccountTypePersonal 0)
                \<lparr>Balance := Finite False 5000000000000000 1, UpdatedAt := 3\<rparr>,
         Suc 0 := (NewAccount ''acc2'' ''bob'' ''bob@example.com'' AccountTypePersonal 1)
                \<lparr>Balance := Finite False 4503599627370496 (- 52), UpdatedAt := 6\<rparr>),
      transaction_objs = (\<lambda>_. zero_Transaction)
        (2 := Complete (NewTransaction ''tx_12345'' ''acc1'' ''deposit''
                 (Finite False 5000000000000000 1) 2) 4,
         3 := Complete (NewTransaction ''tx_12345'' ''acc2'' ''deposit''
                 (Finite False 4503599627370496 (- 52)) 5) 7),
      fresh = 4, accounts = [''acc1'' \<mapsto> 0, ''acc2'' \<mapsto> 1],
      transactions = [''tx_12345'' \<mapsto> 3],
      clock = (\<lambda>n. n), reads = 8\<rparr>"
  by (simp add: large_and_small_def two_accounts_f64_eval CreateDeposit_def repo_defs ptr_defs entity_defs
      IsPositive_def IsActive_def NewMoney_def NewAccount_def generateTransactionID_def
      TransactionTypeDeposit_def Let_def fun_upd_twist float64_simps)

lemma overflowed_eval:
  "overflowed =
     \<lparr>account_objs = (\<lambda>_. zero_Account)
        (0 := (NewAccount ''acc1'' ''alice'' ''alice@example.com'' AccountTypePersonal 0)
                \<lparr>Balance := Infinity False, UpdatedAt := 6\<rparr>,
         Suc 0 := NewAccount ''acc2'' ''bob'' ''bob@example.com'' AccountTypePersonal 1),
      transaction_objs = (\<lambda>_. zero_Transaction)
        (2 := Complete (NewTransaction ''tx_12345'' ''acc1'' ''deposit''
                 (Finite False 4503599627370496 971) 2) 4,
         3 := Complete (NewTransaction ''tx_12345'' ''acc1'' ''deposit''
                 (Finite False 4503599627370496 971) 5) 7),
      fresh = 4, accounts = [''acc1'' \<mapsto> 0, ''acc2'' \<mapsto> 1],
      transactions = [''tx_12345'' \<mapsto> 3],
      clock = (\<lambda>n. n), reads = 8\<rparr>"
  by (simp add: overflowed_def two_accounts_f64_eval CreateDeposit_def repo_defs ptr_defs entity_defs
      IsPositive_def IsActive_def NewMoney_def NewAccount_def generateTransactionID_def
      TransactionTypeDeposit_def Let_def fun_upd_twist float64_simps)


lemma transfer_one_eval:
  "transfer_one =
     (Inr 4,
      \<lparr>account_objs = (\<lambda>_. zero_Account)
        (0 := (NewAccount ''acc1'' ''alice'' ''alice@example.com'' AccountTypePersonal 0)
                \<lparr>Balance := Finite False 5000000000000000 1, UpdatedAt := 9\<rparr>,
         Suc 0 := (NewAccount ''acc2'' ''bob'' ''bob@example.com'' AccountTypePersonal 1)
                \<lparr>Balance := Finite False 4503599627370496 (- 51), UpdatedAt := 10\<rparr>),
      transaction_objs = (\<lambda>_. zero_Transaction)
        (2 := Complete (NewTransaction ''tx_12345'' ''acc1'' ''deposit''
                 (Finite False 5000000000000000 1) 2) 4,
         3 := Complete (NewTransaction ''tx_12345'' ''acc2'' ''deposit''
                 (Finite False 4503599627370496 (- 52)) 5) 7,
         4 := Complete ((NewTransaction ''tx_12345'' ''acc1'' ''transfer''
                 (Finite False 4503599627370496 (- 52)) 8)
                 \<lparr>SourceAccountID := ''acc1'', TargetAccountID := ''acc2''\<rparr>) 11),
      fresh = 5, accounts = [''acc1'' \<mapsto> 0, ''acc2'' \<mapsto> 1],
      transactions = [''tx_12345'' \<mapsto> 4],
      clock = (\<lambda>n. n), reads = 12\<rparr>)"
  by (simp add: transfer_one_def large_and_small_eval CreateTransfer_def repo_defs ptr_defs
      entity_defs IsActive_def NewMoney_def NewAccount_def generateTransactionID_def
      AccountStatusActive_def TransactionTypeTransfer_def Let_def fun_upd_twist float64_simps)

section \<open>Every operation keeps the account store well-formed\<close>

text \<open>\<open>accounts_ok\<close> holds of the empty store and is kept by every method of the
  repository and of the two services, on every path: it is an invariant of the worlds
  the code can reach, not a restriction of them.\<close>

lemma NewWorld_ok: "accounts_ok (NewWorld clk)"
  by (simp add: accounts_ok_def NewWorld_def)

lemma accounts_ok_Save:
  "accounts_ok w \<Longrightarrow> account < fresh w \<Longrightarrow> accounts_ok (snd (AccountRepository_Save w account))"
  by (auto simp: accounts_ok_def AccountRepository_Save_def split: if_splits)

lemma accounts_ok_Delete:
  "accounts_ok w \<Longrightarrow> accounts_ok (snd (AccountRepository_Delete w k))"
  by (auto simp: accounts_ok_def AccountRepository_Delete_def split: option.splits if_splits)

lemma accounts_ok_UpdateBalance:
  "accounts_ok w \<Longrightarrow> accounts_ok (ptr_UpdateBalance w a v)"
  by (auto simp: accounts_ok_def ptr_UpdateBalance_def tick_def UpdateBalance_def)

lemma accounts_ok_Suspend:
  "accounts_ok w \<Longrightarrow> accounts_ok (ptr_Suspend w a)"
  by (auto simp: accounts_ok_def ptr_Suspend_def tick_def Suspend_def)

lemma accounts_ok_Activate:
  "accounts_ok w \<Longrightarrow> accounts_ok (ptr_Activate w a)"
  by (auto simp: accounts_ok_def ptr_Activate_def tick_def Activate_def)

lemma accounts_ok_frame:
  "accounts_ok w \<Longrightarrow> accounts w' = accounts w \<Longrightarrow> account_objs w' = account_objs w \<Longrightarrow>
   fresh w \<le> fresh w' \<Longrightarrow> accounts_ok w'"
  by (fastforce simp: accounts_ok_def)

lemma accounts_ok_NewTransaction:
  "accounts_ok w \<Longrightarrow> accounts_ok (snd (ptr_NewTransaction w i a t v))"
  by (erule accounts_ok_frame) (simp_all add: ptr_NewTransaction_def tick_def)

lemma accounts_ok_set_SourceAccountID:
  "accounts_ok w \<Longrightarrow> accounts_ok (set_SourceAccountID w t v)"
  by (erule accounts_ok_frame) (simp_all add: set_SourceAccountID_def)

lemma accounts_ok_set_TargetAccountID:
  "accounts_ok w \<Longrightarrow> accounts_ok (set_TargetAccountID w t v)"
  by (erule accounts_ok_frame) (simp_all add: set_TargetAccountID_def)

lemma accounts_ok_Complete:
  "accounts_ok w \<Longrightarrow> accounts_ok (ptr_Complete w t)"
  by (erule accounts_ok_frame) (simp_all add: ptr_Complete_def tick_def)

lemma accounts_ok_Fail:
  "accounts_ok w \<Longrightarrow> accounts_ok (ptr_Fail w t)"
  by (erule accounts_ok_frame) (simp_all add: ptr_Fail_def tick_def)

lemma accounts_ok_Save_transaction:
  "accounts_ok w \<Longrightarrow> accounts_ok (snd (TransactionRepository_Save w t))"
  by (erule accounts_ok_frame) (simp_all add: TransactionRepository_Save_def)

lemma accounts_ok_CreateAccount:
  "accounts_ok w \<Longrightarrow> accounts_ok (snd (CreateAccount w ks ownerID email accountType))"
  by (auto simp: accounts_ok_def CreateAccount_def ptr_NewAccount_def AccountRepository_Save_def
      tick_def NewAccount_def generateAccountID_def less_Suc_eq
      split: sum.splits if_splits)

lemma accounts_ok_UpdateAccountBalance:
  "accounts_ok w \<Longrightarrow> accounts_ok (snd (UpdateAccountBalance w k v))"
  by (auto simp: accounts_ok_def UpdateAccountBalance_def AccountRepository_FindByID_def
      AccountRepository_Save_def ptr_UpdateBalance_def tick_def UpdateBalance_def
      split: option.splits if_splits)

lemma accounts_ok_SuspendAccount:
  "accounts_ok w \<Longrightarrow> accounts_ok (snd (SuspendAccount w k))"
  by (auto simp: accounts_ok_def SuspendAccount_def AccountRepository_FindByID_def
      AccountRepository_Save_def ptr_Suspend_def tick_def Suspend_def
      split: option.splits if_splits)

lemma accounts_ok_CreateDeposit:
  "accounts_ok w \<Longrightarrow> accounts_ok (snd (CreateDeposit w k amount))"
  by (auto simp: accounts_ok_def CreateDeposit_def repo_defs ptr_defs entity_defs Let_def
      less_Suc_eq split: option.splits if_splits)

lemma accounts_ok_CreateWithdrawal:
  "accounts_ok w \<Longrightarrow> accounts_ok (snd (CreateWithdrawal w k amount))"
  by (auto simp: accounts_ok_def CreateWithdrawal_def repo_defs ptr_defs entity_defs Let_def
      less_Suc_eq split: option.splits if_splits)


lemma accounts_ok_CreateTransfer:
  "accounts_ok w \<Longrightarrow> accounts_ok (snd (CreateTransfer w s t amount))"
  by (auto simp: accounts_ok_def CreateTransfer_def repo_defs ptr_defs entity_defs Let_def
      less_Suc_eq split: option.splits if_splits)

lemma accounts_ok_process_one:
  assumes "accounts_ok w"
  shows "accounts_ok (process_one w tx)"
proof (cases "IsPending (transaction_objs w tx)")
  case False
  with assms show ?thesis by (simp add: process_one_def)
next
  case True
  obtain e w1 where saved: "TransactionRepository_Save (ptr_Complete w tx) tx = (e, w1)"
    by (cases "TransactionRepository_Save (ptr_Complete w tx) tx")
  from assms have "accounts_ok (snd (TransactionRepository_Save (ptr_Complete w tx) tx))"
    by (intro accounts_ok_Save_transaction accounts_ok_Complete)
  with saved have ok1: "accounts_ok w1"
    by simp
  then have "accounts_ok (snd (TransactionRepository_Save (ptr_Fail w1 tx) tx))"
    by (intro accounts_ok_Save_transaction accounts_ok_Fail)
  with ok1 True saved show ?thesis
    by (cases e) (simp_all add: process_one_def)
qed

lemma accounts_ok_process_all:
  "accounts_ok w \<Longrightarrow> accounts_ok (process_all w txs)"
  by (induction txs arbitrary: w) (simp_all add: accounts_ok_process_one)

lemma accounts_ok_ProcessPendingTransactions:
  "accounts_ok w \<Longrightarrow> accounts_ok (snd (ProcessPendingTransactions w ks))"
  by (simp add: ProcessPendingTransactions_def accounts_ok_process_all)

lemma two_accounts_f64_ok: "accounts_ok two_accounts_f64"
  by (auto simp: two_accounts_f64_eval accounts_ok_def NewAccount_def split: if_splits)

lemma funded_f64_ok: "accounts_ok funded_f64"
  unfolding funded_f64_def by (intro accounts_ok_CreateDeposit two_accounts_f64_ok)

lemma large_and_small_ok: "accounts_ok large_and_small"
  unfolding large_and_small_def by (intro accounts_ok_CreateDeposit two_accounts_f64_ok)

lemma overflowed_ok: "accounts_ok overflowed"
  unfolding overflowed_def by (intro accounts_ok_CreateDeposit two_accounts_f64_ok)

section \<open>Deposit\<close>

text \<open>
  Claim C2. A deposit of a positive amount into an existing active account succeeds;
  afterwards the balance of the account, read from the object or through the store,
  is the balance before plus the amount, and the transaction returned has type Deposit
  and status Completed. No law of arithmetic is used: the new balance is the value of
  the one addition the code performs.
\<close>

theorem CreateDeposit_adds_amount:
  fixes w :: "'a::{zero,ord,plus} world"
  assumes "accounts_ok w"
    and "IsPositive amount"
    and "AccountRepository_FindByID w accountID = Inr account"
    and "IsActive (account_objs w account)"
  shows "\<exists>tx w'. CreateDeposit w accountID amount = (Inr tx, w') \<and>
           AccountRepository_GetBalance w' accountID =
             Inr (GetBalance (account_objs w account) + Amount amount) \<and>
           GetBalance (account_objs w' account) = GetBalance (account_objs w account) + Amount amount \<and>
           Type (transaction_objs w' tx) = TransactionTypeDeposit \<and>
           TxStatus (transaction_objs w' tx) = TransactionStatusCompleted"
proof -
  from assms(3) have found: "accounts w accountID = Some account"
    by (simp add: FindByID_Inr)
  with assms(1) have id: "ID (account_objs w account) = accountID" "accountID \<noteq> []"
    by (auto simp: accounts_ok_def)
  show ?thesis
    using found id
    by (simp add: CreateDeposit_run [OF assms(2) found assms(4)] AccountRepository_GetBalance_def
          GetBalance_def Complete_def NewTransaction_def)
qed

theorem CreateDeposit_adds_amount_witness:
  "accounts_ok two_accounts \<and> IsPositive (NewMoney (100::int) CurrencyUSD) \<and>
   AccountRepository_FindByID two_accounts ''acc1'' = Inr 0 \<and>
   IsActive (account_objs two_accounts 0) \<and>
   (\<exists>tx w'. CreateDeposit two_accounts ''acc1'' (NewMoney 100 CurrencyUSD) = (Inr tx, w') \<and>
      AccountRepository_GetBalance w' ''acc1'' = Inr 100 \<and>
      Type (transaction_objs w' tx) = ''deposit'' \<and>
      TxStatus (transaction_objs w' tx) = ''completed'')"
proof -
  have pos: "IsPositive (NewMoney (100::int) CurrencyUSD)"
    by (simp add: IsPositive_def NewMoney_def)
  have found: "AccountRepository_FindByID two_accounts ''acc1'' = Inr 0"
    by (simp add: two_accounts_eval AccountRepository_FindByID_def)
  have active: "IsActive (account_objs two_accounts 0)"
    by (simp add: two_accounts_eval IsActive_def NewAccount_def)
  have bal: "GetBalance (account_objs two_accounts 0) = 0"
    by (simp add: two_accounts_eval GetBalance_def NewAccount_def)
  from CreateDeposit_adds_amount [OF two_accounts_ok pos found active] bal
  show ?thesis
    using pos found active two_accounts_ok
    by (auto simp: NewMoney_def TransactionTypeDeposit_def TransactionStatusCompleted_def)
qed

section \<open>Withdrawal\<close>

text \<open>
  Claim C3, as the code has it. A withdrawal of a positive amount that exceeds the
  balance of an existing account fails with the error \<open>insufficient balance\<close>, and the
  call returns the world it was given: the account object, both stores and the clock
  are untouched. (The positivity test comes first in \<open>CreateWithdrawal\<close>, so the
  amount has to be positive for this error to be the one returned.)
\<close>

theorem CreateWithdrawal_insufficient:
  assumes "IsPositive amount"
    and "AccountRepository_FindByID w accountID = Inr account"
    and "GetBalance (account_objs w account) < Amount amount"
  shows "CreateWithdrawal w accountID amount = (Inl ''insufficient balance'', w)"
  using assms by (simp add: CreateWithdrawal_def)

theorem CreateWithdrawal_insufficient_witness:
  "IsPositive (NewMoney (150::int) CurrencyUSD) \<and>
   AccountRepository_FindByID funded ''acc1'' = Inr 0 \<and>
   GetBalance (account_objs funded 0) < Amount (NewMoney (150::int) CurrencyUSD) \<and>
   CreateWithdrawal funded ''acc1'' (NewMoney 150 CurrencyUSD) = (Inl ''insufficient balance'', funded) \<and>
   AccountRepository_GetBalance funded ''acc1'' = Inr 100"
proof -
  have pos: "IsPositive (NewMoney (150::int) CurrencyUSD)"
    by (simp add: IsPositive_def NewMoney_def)
  have found: "AccountRepository_FindByID funded ''acc1'' = Inr 0"
    by (simp add: funded_eval AccountRepository_FindByID_def)
  have less: "GetBalance (account_objs funded 0) < Amount (NewMoney (150::int) CurrencyUSD)"
    by (simp add: funded_eval GetBalance_def NewAccount_def NewMoney_def)
  have bal: "AccountRepository_GetBalance funded ''acc1'' = Inr 100"
    by (simp add: funded_eval AccountRepository_GetBalance_def GetBalance_def NewAccount_def)
  from CreateWithdrawal_insufficient [OF pos found less] pos found less bal
  show ?thesis by simp
qed

text \<open>The claim as stated fails where the amount is not positive: on a balance of -10
  the request to withdraw -5 exceeds the balance, and the error is the one of the
  positivity test.\<close>

theorem CreateWithdrawal_nonpositive_counterexample:
  "AccountRepository_FindByID overdrawn ''acc1'' = Inr 0 \<and>
   GetBalance (account_objs overdrawn 0) < Amount (NewMoney (- 5) CurrencyUSD) \<and>
   CreateWithdrawal overdrawn ''acc1'' (NewMoney (- 5) CurrencyUSD) =
     (Inl ''withdrawal amount must be positive'', overdrawn) \<and>
   fst (CreateWithdrawal overdrawn ''acc1'' (NewMoney (- 5) CurrencyUSD)) \<noteq> Inl ''insufficient balance''"
  by (simp add: overdrawn_eval AccountRepository_FindByID_def GetBalance_def NewAccount_def
      NewMoney_def CreateWithdrawal_def IsPositive_def)

text \<open>
  Claim C10, as the code has it. A withdrawal of exactly the balance \<open>b\<close> of an existing
  account, \<open>b\<close> finite and \<open>b > 0\<close>, is not refused: the test is \<open>balance < amount\<close>.
  The call succeeds and the balance is zero afterwards. (\<open>CreateWithdrawal\<close> has no test
  of the status of the account.)
\<close>

theorem CreateWithdrawal_whole_finite_balance:
  fixes w :: "float64 world"
  assumes "accounts_ok w"
    and "AccountRepository_FindByID w accountID = Inr account"
    and "is_finite (GetBalance (account_objs w account))"
    and "0 < GetBalance (account_objs w account)"
    and "Amount amount = GetBalance (account_objs w account)"
  shows "\<exists>tx w'. CreateWithdrawal w accountID amount = (Inr tx, w') \<and>
           AccountRepository_GetBalance w' accountID = Inr 0 \<and>
           GetBalance (account_objs w' account) = 0"
proof -
  from assms(2) have found: "accounts w accountID = Some account"
    by (simp add: FindByID_Inr)
  with assms(1) have id: "ID (account_objs w account) = accountID" "accountID \<noteq> []"
    by (auto simp: accounts_ok_def)
  from assms(4,5) have pos: "IsPositive amount"
    by (simp add: IsPositive_def)
  from assms(5) have enough: "\<not> Balance (account_objs w account) < Amount amount"
    by (simp add: GetBalance_def float64_less_irrefl)
  have nonempty: "ID (account_objs w account) \<noteq> []"
    using id by simp
  from assms(3) obtain s m e where "GetBalance (account_objs w account) = Finite s m e"
    by (cases "GetBalance (account_objs w account)") (simp_all add: is_finite_def)
  with assms(5) have zero: "Balance (account_objs w account) - Amount amount = 0"
    by (simp add: GetBalance_def float64_sub_self)
  show ?thesis
    using found id zero
    by (simp add: CreateWithdrawal_run [OF pos found enough nonempty] AccountRepository_GetBalance_def
          GetBalance_def)
qed

theorem CreateWithdrawal_whole_finite_balance_witness:
  "accounts_ok funded_f64 \<and> AccountRepository_FindByID funded_f64 ''acc1'' = Inr 0 \<and>
   is_finite (GetBalance (account_objs funded_f64 0)) \<and>
   0 < GetBalance (account_objs funded_f64 0) \<and>
   Amount (NewMoney (float64_of_int 100) CurrencyUSD) = GetBalance (account_objs funded_f64 0) \<and>
   (\<exists>tx w'. CreateWithdrawal funded_f64 ''acc1'' (NewMoney (float64_of_int 100) CurrencyUSD) = (Inr tx, w') \<and>
      AccountRepository_GetBalance w' ''acc1'' = Inr 0)"
proof -
  have found: "AccountRepository_FindByID funded_f64 ''acc1'' = Inr 0"
    by (simp add: funded_f64_eval AccountRepository_FindByID_def)
  have bal: "GetBalance (account_objs funded_f64 0) = Finite False 7036874417766400 (- 46)"
    by (simp add: funded_f64_eval GetBalance_def NewAccount_def)
  have fin: "is_finite (GetBalance (account_objs funded_f64 0))"
    by (simp add: bal is_finite_def)
  have pos: "0 < GetBalance (account_objs funded_f64 0)"
    by (simp add: bal float64_zero_less)
  have all: "Amount (NewMoney (float64_of_int 100) CurrencyUSD) = GetBalance (account_objs funded_f64 0)"
    by (simp add: bal Amount_NewMoney float64_of_int_values)
  from CreateWithdrawal_whole_finite_balance [OF funded_f64_ok found fin pos all]
  show ?thesis
    using found fin pos all funded_f64_ok by auto
qed

text \<open>The claim as stated fails at the balance \<open>+Inf\<close>, which two deposits of \<open>2 ^ 1023\<close>
  leave: it is greater than zero, the withdrawal of \<open>+Inf\<close> succeeds, and the balance
  afterwards is \<open>Inf - Inf\<close>, NaN.\<close>

theorem CreateWithdrawal_infinite_counterexample:
  "AccountRepository_FindByID overflowed ''acc1'' = Inr 0 \<and>
   GetBalance (account_objs overflowed 0) = Infinity False \<and>
   0 < GetBalance (account_objs overflowed 0) \<and>
   fst withdraw_all = Inr 4 \<and>
   AccountRepository_GetBalance (snd withdraw_all) ''acc1'' = Inr NaN \<and>
   NaN \<noteq> (0::float64)"
proof -
  have nan: "NaN \<noteq> (0::float64)"
    by (simp add: zero_float64_def)
  show ?thesis
    by (simp add: nan withdraw_all_def overflowed_eval CreateWithdrawal_def repo_defs ptr_defs
        entity_defs IsPositive_def NewMoney_def NewAccount_def generateTransactionID_def
        Let_def float64_simps float64_less_irrefl)
qed


section \<open>Transfer\<close>

lemma CreateTransfer_moves_amount:
  fixes w :: "'a::{ord,plus,minus} world"
  assumes "accounts_ok w"
    and "sourceAccountID \<noteq> targetAccountID"
    and "AccountRepository_FindByID w sourceAccountID = Inr sourceAccount"
    and "AccountRepository_FindByID w targetAccountID = Inr targetAccount"
    and "IsActive (account_objs w sourceAccount)"
    and "IsActive (account_objs w targetAccount)"
    and "\<not> GetBalance (account_objs w sourceAccount) < Amount amount"
  shows "\<exists>tx w'. CreateTransfer w sourceAccountID targetAccountID amount = (Inr tx, w') \<and>
           Type (transaction_objs w' tx) = TransactionTypeTransfer \<and>
           TxStatus (transaction_objs w' tx) = TransactionStatusCompleted \<and>
           AccountRepository_GetBalance w' sourceAccountID =
             Inr (GetBalance (account_objs w sourceAccount) - Amount amount) \<and>
           AccountRepository_GetBalance w' targetAccountID =
             Inr (GetBalance (account_objs w targetAccount) + Amount amount) \<and>
           GetBalance (account_objs w' sourceAccount) =
             GetBalance (account_objs w sourceAccount) - Amount amount \<and>
           GetBalance (account_objs w' targetAccount) =
             GetBalance (account_objs w targetAccount) + Amount amount"
proof -
  from assms(3,4) have found:
    "accounts w sourceAccountID = Some sourceAccount" "accounts w targetAccountID = Some targetAccount"
    by (simp_all add: FindByID_Inr)
  with assms(1) have id:
    "ID (account_objs w sourceAccount) = sourceAccountID" "sourceAccountID \<noteq> []"
    "ID (account_objs w targetAccount) = targetAccountID" "targetAccountID \<noteq> []"
    by (auto simp: accounts_ok_def)
  with assms(2) have distinct: "sourceAccount \<noteq> targetAccount"
    by auto
  from assms(7) have enough: "\<not> Balance (account_objs w sourceAccount) < Amount amount"
    by (simp add: GetBalance_def)
  have nonempty: "ID (account_objs w sourceAccount) \<noteq> []" "ID (account_objs w targetAccount) \<noteq> []"
    using id by simp_all
  note run = CreateTransfer_run [OF assms(2) found assms(5,6) enough nonempty distinct]
  show ?thesis
    using found id distinct assms(2)
    by (simp add: run AccountRepository_GetBalance_def GetBalance_def Complete_def NewTransaction_def)
qed

text \<open>
  Claim C1, as the code has it. A transfer between two distinct existing active
  accounts, with a source balance of at least the amount, succeeds; the source holds
  the \<^verbatim>\<open>float64\<close> difference of its balance and the amount, the target the \<^verbatim>\<open>float64\<close>
  sum of its balance and the amount, and the transaction returned has type Transfer
  and status Completed. When neither the subtraction nor the addition rounds, the sum
  of the two balances is what it was.
\<close>

theorem CreateTransfer_float64:
  fixes w :: "float64 world"
  assumes "accounts_ok w"
    and "sourceAccountID \<noteq> targetAccountID"
    and "AccountRepository_FindByID w sourceAccountID = Inr sourceAccount"
    and "AccountRepository_FindByID w targetAccountID = Inr targetAccount"
    and "IsActive (account_objs w sourceAccount)"
    and "IsActive (account_objs w targetAccount)"
    and "Amount amount \<le> GetBalance (account_objs w sourceAccount)"
  shows "\<exists>tx w'. CreateTransfer w sourceAccountID targetAccountID amount = (Inr tx, w') \<and>
           Type (transaction_objs w' tx) = TransactionTypeTransfer \<and>
           TxStatus (transaction_objs w' tx) = TransactionStatusCompleted \<and>
           AccountRepository_GetBalance w' sourceAccountID =
             Inr (GetBalance (account_objs w sourceAccount) - Amount amount) \<and>
           AccountRepository_GetBalance w' targetAccountID =
             Inr (GetBalance (account_objs w targetAccount) + Amount amount) \<and>
           (sub_is_exact (GetBalance (account_objs w sourceAccount)) (Amount amount) \<and>
            add_is_exact (GetBalance (account_objs w targetAccount)) (Amount amount) \<longrightarrow>
              float64_value (GetBalance (account_objs w' sourceAccount)) +
              float64_value (GetBalance (account_objs w' targetAccount)) =
              float64_value (GetBalance (account_objs w sourceAccount)) +
              float64_value (GetBalance (account_objs w targetAccount)))"
proof -
  from assms(7) have enough: "\<not> GetBalance (account_objs w sourceAccount) < Amount amount"
    by (rule float64_le_not_less)
  from CreateTransfer_moves_amount [OF assms(1-6) enough]
  obtain tx w' where run: "CreateTransfer w sourceAccountID targetAccountID amount = (Inr tx, w')"
    and tx: "Type (transaction_objs w' tx) = TransactionTypeTransfer"
      "TxStatus (transaction_objs w' tx) = TransactionStatusCompleted"
    and repo: "AccountRepository_GetBalance w' sourceAccountID =
                 Inr (GetBalance (account_objs w sourceAccount) - Amount amount)"
      "AccountRepository_GetBalance w' targetAccountID =
                 Inr (GetBalance (account_objs w targetAccount) + Amount amount)"
    and after: "GetBalance (account_objs w' sourceAccount) =
                 GetBalance (account_objs w sourceAccount) - Amount amount"
      "GetBalance (account_objs w' targetAccount) =
                 GetBalance (account_objs w targetAccount) + Amount amount"
    by blast
  have "float64_value (GetBalance (account_objs w' sourceAccount)) +
        float64_value (GetBalance (account_objs w' targetAccount)) =
        float64_value (GetBalance (account_objs w sourceAccount)) +
        float64_value (GetBalance (account_objs w targetAccount))"
    if "sub_is_exact (GetBalance (account_objs w sourceAccount)) (Amount amount)"
      and "add_is_exact (GetBalance (account_objs w targetAccount)) (Amount amount)"
    using that by (simp add: after sub_is_exact_def add_is_exact_def)
  with run tx repo show ?thesis
    by blast
qed

theorem CreateTransfer_float64_witness:
  "accounts_ok funded_f64 \<and> ''acc1'' \<noteq> ''acc2'' \<and>
   AccountRepository_FindByID funded_f64 ''acc1'' = Inr 0 \<and>
   AccountRepository_FindByID funded_f64 ''acc2'' = Inr 1 \<and>
   IsActive (account_objs funded_f64 0) \<and> IsActive (account_objs funded_f64 1) \<and>
   Amount (NewMoney (float64_of_int 40) CurrencyUSD) \<le> GetBalance (account_objs funded_f64 0) \<and>
   sub_is_exact (GetBalance (account_objs funded_f64 0)) (Amount (NewMoney (float64_of_int 40) CurrencyUSD)) \<and>
   add_is_exact (GetBalance (account_objs funded_f64 1)) (Amount (NewMoney (float64_of_int 40) CurrencyUSD)) \<and>
   (\<exists>tx w'. CreateTransfer funded_f64 ''acc1'' ''acc2'' (NewMoney (float64_of_int 40) CurrencyUSD) = (Inr tx, w') \<and>
      Type (transaction_objs w' tx) = ''transfer'' \<and>
      TxStatus (transaction_objs w' tx) = ''completed'' \<and>
      AccountRepository_GetBalance w' ''acc1'' = Inr (float64_of_int 60) \<and>
      AccountRepository_GetBalance w' ''acc2'' = Inr (float64_of_int 40) \<and>
      float64_value (GetBalance (account_objs w' 0)) + float64_value (GetBalance (account_objs w' 1)) = 100)"
proof -
  have ne: "''acc1'' \<noteq> ''acc2''"
    by simp
  have src: "AccountRepository_FindByID funded_f64 ''acc1'' = Inr 0"
    and tgt: "AccountRepository_FindByID funded_f64 ''acc2'' = Inr 1"
    by (simp_all add: funded_f64_eval AccountRepository_FindByID_def)
  have active: "IsActive (account_objs funded_f64 0)" "IsActive (account_objs funded_f64 1)"
    by (simp_all add: funded_f64_eval IsActive_def NewAccount_def)
  have bal: "GetBalance (account_objs funded_f64 0) = Finite False 7036874417766400 (- 46)"
    "GetBalance (account_objs funded_f64 (Suc 0)) = 0"
    by (simp_all add: funded_f64_eval GetBalance_def NewAccount_def)
  have amt: "Amount (NewMoney (float64_of_int 40) CurrencyUSD) = Finite False 5629499534213120 (- 47)"
    by (simp add: Amount_NewMoney float64_of_int_values)
  have sixty: "float64_of_int 60 = Finite False 8444249301319680 (- 47)"
    by code_simp
  have enough: "Amount (NewMoney (float64_of_int 40) CurrencyUSD) \<le> GetBalance (account_objs funded_f64 0)"
    by (simp add: bal amt float64_examples)
  have sub: "sub_is_exact (GetBalance (account_objs funded_f64 0))
               (Amount (NewMoney (float64_of_int 40) CurrencyUSD))"
    by (simp add: bal amt sub_is_exact_def float64_examples float64_value_examples is_finite_def)
  have add: "add_is_exact (GetBalance (account_objs funded_f64 1))
               (Amount (NewMoney (float64_of_int 40) CurrencyUSD))"
    by (simp add: bal amt add_is_exact_def float64_zero_add is_float64_def float64_value_examples
        float64_value_zero is_finite_def)
  from CreateTransfer_float64 [OF funded_f64_ok ne src tgt active enough] sub add
  obtain tx w' where
    "CreateTransfer funded_f64 ''acc1'' ''acc2'' (NewMoney (float64_of_int 40) CurrencyUSD) = (Inr tx, w')"
    "Type (transaction_objs w' tx) = TransactionTypeTransfer"
    "TxStatus (transaction_objs w' tx) = TransactionStatusCompleted"
    "AccountRepository_GetBalance w' ''acc1'' =
       Inr (GetBalance (account_objs funded_f64 0) - Amount (NewMoney (float64_of_int 40) CurrencyUSD))"
    "AccountRepository_GetBalance w' ''acc2'' =
       Inr (GetBalance (account_objs funded_f64 1) + Amount (NewMoney (float64_of_int 40) CurrencyUSD))"
    "float64_value (GetBalance (account_objs w' 0)) + float64_value (GetBalance (account_objs w' 1)) =
     float64_value (GetBalance (account_objs funded_f64 0)) +
     float64_value (GetBalance (account_objs funded_f64 1))"
    by blast
  then have "\<exists>tx w'. CreateTransfer funded_f64 ''acc1'' ''acc2'' (NewMoney (float64_of_int 40) CurrencyUSD) = (Inr tx, w') \<and>
      Type (transaction_objs w' tx) = ''transfer'' \<and>
      TxStatus (transaction_objs w' tx) = ''completed'' \<and>
      AccountRepository_GetBalance w' ''acc1'' = Inr (float64_of_int 60) \<and>
      AccountRepository_GetBalance w' ''acc2'' = Inr (float64_of_int 40) \<and>
      float64_value (GetBalance (account_objs w' 0)) + float64_value (GetBalance (account_objs w' 1)) = 100"
    by (simp add: bal Amount_NewMoney sixty float64_examples float64_zero_add is_float64_def float64_of_int_values
        float64_value_examples float64_value_zero TransactionTypeTransfer_def
        TransactionStatusCompleted_def)
  with funded_f64_ok ne src tgt active enough sub add show ?thesis
    by blast
qed


text \<open>The claim as stated fails where an operation rounds: with \<open>10 ^ 16\<close> and 1 in the
  accounts, the transfer of 1 leaves \<open>10 ^ 16\<close> (the difference \<open>10 ^ 16 - 1\<close> is not a
  binary64 and rounds back) and 2. The sum of the balances was 10000000000000001 and is
  10000000000000002; added as \<^verbatim>\<open>float64\<close> the two sums differ as well.\<close>

theorem CreateTransfer_rounding_counterexample:
  "AccountRepository_GetBalance large_and_small ''acc1'' = Inr (float64_of_int 10000000000000000) \<and>
   AccountRepository_GetBalance large_and_small ''acc2'' = Inr (float64_of_int 1) \<and>
   fst transfer_one = Inr 4 \<and>
   TxStatus (transaction_objs (snd transfer_one) 4) = TransactionStatusCompleted \<and>
   AccountRepository_GetBalance (snd transfer_one) ''acc1'' = Inr (float64_of_int 10000000000000000) \<and>
   AccountRepository_GetBalance (snd transfer_one) ''acc2'' = Inr (float64_of_int 2) \<and>
   float64_value (float64_of_int 10000000000000000) + float64_value (float64_of_int 1) =
     10000000000000001 \<and>
   float64_value (float64_of_int 10000000000000000) + float64_value (float64_of_int 2) =
     10000000000000002 \<and>
   float64_of_int 10000000000000000 + float64_of_int 2 \<noteq>
     float64_of_int 10000000000000000 + float64_of_int 1"
proof -
  have two: "float64_of_int 2 = Finite False 4503599627370496 (- 51)"
    by code_simp
  show ?thesis
    by (simp add: transfer_one_eval large_and_small_eval AccountRepository_GetBalance_def
        GetBalance_def NewAccount_def Complete_def two float64_of_int_values float64_examples
        float64_value_examples)
qed

lemma Save_account_error_same:
  "AccountRepository_Save w a = (Some err, w') \<Longrightarrow> w' = w"
  by (auto simp: AccountRepository_Save_def split: if_splits)

lemma Save_transaction_error_same:
  "TransactionRepository_Save w t = (Some err, w') \<Longrightarrow> w' = w"
  by (auto simp: TransactionRepository_Save_def split: if_splits)

lemma CreateTransfer_states_last:
  "snd (CreateTransfer w sourceAccountID targetAccountID amount) =
   last (w # CreateTransfer_states w sourceAccountID targetAccountID amount)"
  by (auto simp: CreateTransfer_def CreateTransfer_states_def Let_def
      dest: Save_account_error_same Save_transaction_error_same
      split: sum.splits prod.splits option.splits)


lemma CreateTransfer_states_debit:
  assumes "sourceAccountID \<noteq> targetAccountID"
    and "accounts w sourceAccountID = Some sourceAccount"
    and "accounts w targetAccountID = Some targetAccount"
    and "IsActive (account_objs w sourceAccount)"
    and "IsActive (account_objs w targetAccount)"
    and "\<not> Balance (account_objs w sourceAccount) < Amount amount"
  shows "accounts (CreateTransfer_states w sourceAccountID targetAccountID amount ! 3) = accounts w"
    and "account_objs (CreateTransfer_states w sourceAccountID targetAccountID amount ! 3) =
           (account_objs w)
             (sourceAccount := (account_objs w sourceAccount)
                \<lparr>Balance := Balance (account_objs w sourceAccount) - Amount amount,
                 UpdatedAt := clock w (Suc (reads w))\<rparr>)"
  using assms
  by (simp_all add: CreateTransfer_states_def AccountRepository_FindByID_def ptr_defs entity_defs Let_def)

text \<open>
  Claim C9. The transfer is not one atomic unit. In the scenario (\<open>acc1\<close> holds 100,
  \<open>acc2\<close> holds 0, 40 is transferred) the state after the debit of line 162 and
  before the credit of line 163 shows 60 and 0 to a reader of the two balances: the
  source is updated, the target is not, and 40 is in neither account.
  \<open>CreateTransfer_states_last\<close> ties the list of states to \<open>CreateTransfer\<close>: its last
  state is the one the call returns.
\<close>

theorem CreateTransfer_partial_state:
  "AccountRepository_GetBalance funded ''acc1'' = Inr 100 \<and>
   AccountRepository_GetBalance funded ''acc2'' = Inr 0 \<and>
   AccountRepository_GetBalance (transfer_states ! 3) ''acc1'' = Inr 60 \<and>
   AccountRepository_GetBalance (transfer_states ! 3) ''acc2'' = Inr 0 \<and>
   snd transfer_call = last (funded # transfer_states)"
proof -
  have ne: "''acc1'' \<noteq> ''acc2''"
    by simp
  have src: "accounts funded ''acc1'' = Some 0" and tgt: "accounts funded ''acc2'' = Some 1"
    by (simp_all add: funded_eval)
  have active: "IsActive (account_objs funded 0)" "IsActive (account_objs funded 1)"
    by (simp_all add: funded_eval IsActive_def NewAccount_def)
  have enough: "\<not> Balance (account_objs funded 0) < Amount (NewMoney (40::int) CurrencyUSD)"
    by (simp add: funded_eval NewAccount_def NewMoney_def)
  note mid = CreateTransfer_states_debit [OF ne src tgt active enough]
  have before: "Balance (account_objs funded 0) = 100" "Balance (account_objs funded (Suc 0)) = 0"
    by (simp_all add: funded_eval NewAccount_def)
  have amt: "Amount (NewMoney (40::int) CurrencyUSD) = 40"
    by (simp add: NewMoney_def)
  show ?thesis
    unfolding transfer_states_def transfer_call_def
    by (simp add: AccountRepository_GetBalance_def GetBalance_def mid src tgt before amt
        CreateTransfer_states_last)
qed

section \<open>The life cycle of a transaction\<close>

lemma terminal_not_pending: "terminal t \<Longrightarrow> \<not> IsPending t"
  by (auto simp: terminal_def IsPending_def TransactionStatusCompleted_def
      TransactionStatusFailed_def TransactionStatusPending_def)

lemma process_one_not_pending:
  "\<not> IsPending (transaction_objs w tx) \<Longrightarrow>
   transaction_objs (process_one w p) tx = transaction_objs w tx"
  by (cases "p = tx")
     (auto simp: process_one_def TransactionRepository_Save_def ptr_Complete_def ptr_Fail_def
        tick_def split: if_splits)

lemma process_all_not_pending:
  "\<not> IsPending (transaction_objs w tx) \<Longrightarrow>
   transaction_objs (process_all w ps) tx = transaction_objs w tx"
proof (induction ps arbitrary: w)
  case Nil
  then show ?case by simp
next
  case (Cons p ps)
  from Cons.prems have same: "transaction_objs (process_one w p) tx = transaction_objs w tx"
    by (rule process_one_not_pending)
  with Cons.prems have "\<not> IsPending (transaction_objs (process_one w p) tx)"
    by simp
  then have "transaction_objs (process_all (process_one w p) ps) tx =
             transaction_objs (process_one w p) tx"
    by (rule Cons.IH)
  with same show ?case by simp
qed

lemma ProcessPendingTransactions_not_pending:
  "\<not> IsPending (transaction_objs w tx) \<Longrightarrow>
   transaction_objs (snd (ProcessPendingTransactions w ks)) tx = transaction_objs w tx"
  by (simp add: ProcessPendingTransactions_def process_all_not_pending)

lemma apply_op_terminal:
  "terminal (transaction_objs w tx) \<Longrightarrow> terminal (transaction_objs (apply_op tx w op) tx)"
proof (cases op)
  case OpComplete
  then show ?thesis by (simp add: ptr_Complete_def tick_def Complete_def terminal_def)
next
  case OpFail
  then show ?thesis by (simp add: ptr_Fail_def tick_def Fail_def terminal_def)
next
  case (OpProcessPendingTransactions ks)
  assume "terminal (transaction_objs w tx)"
  then show ?thesis
    using OpProcessPendingTransactions
    by (simp add: ProcessPendingTransactions_not_pending terminal_not_pending)
qed

lemma apply_op_processed:
  "\<not> IsPending (transaction_objs w tx) \<Longrightarrow> ProcessedAt (transaction_objs w tx) \<noteq> None \<Longrightarrow>
   ProcessedAt (transaction_objs (apply_op tx w op) tx) \<noteq> None"
  by (cases op)
     (simp_all add: ptr_Complete_def ptr_Fail_def tick_def Complete_def Fail_def
        ProcessPendingTransactions_not_pending)

lemma apply_ops_terminal:
  "terminal (transaction_objs w tx) \<Longrightarrow> terminal (transaction_objs (apply_ops tx w ops) tx)"
  unfolding apply_ops_def
  by (induction ops arbitrary: w) (simp_all add: apply_op_terminal)

lemma apply_ops_processed:
  "terminal (transaction_objs w tx) \<Longrightarrow> ProcessedAt (transaction_objs w tx) \<noteq> None \<Longrightarrow>
   ProcessedAt (transaction_objs (apply_ops tx w ops) tx) \<noteq> None"
  unfolding apply_ops_def
proof (induction ops arbitrary: w)
  case Nil
  then show ?case by simp
next
  case (Cons op ops)
  have "terminal (transaction_objs (apply_op tx w op) tx)"
    using Cons.prems(1) by (rule apply_op_terminal)
  moreover have "ProcessedAt (transaction_objs (apply_op tx w op) tx) \<noteq> None"
    using Cons.prems by (intro apply_op_processed terminal_not_pending)
  ultimately have "ProcessedAt (transaction_objs (foldl (apply_op tx) (apply_op tx w op) ops) tx) \<noteq> None"
    by (rule Cons.IH)
  then show ?case by simp
qed

text \<open>
  Claim C4, as the code has it. \<open>Complete\<close> and \<open>Fail\<close> have no guard: each sets its
  status and stamps \<open>ProcessedAt\<close> whatever the status was. Under every sequence of
  \<open>Complete\<close>, \<open>Fail\<close> and \<open>ProcessPendingTransactions\<close> a transaction in a terminal
  status stays in a terminal status (Completed or Failed, not necessarily the same
  one), never is Pending again, and keeps a \<open>ProcessedAt\<close> once it has one;
  \<open>ProcessPendingTransactions\<close> leaves every transaction that is not Pending as it is.
\<close>

theorem terminal_stays_terminal:
  "(terminal (transaction_objs w tx) \<longrightarrow>
      terminal (transaction_objs (apply_ops tx w ops) tx) \<and>
      \<not> IsPending (transaction_objs (apply_ops tx w ops) tx) \<and>
      (ProcessedAt (transaction_objs w tx) \<noteq> None \<longrightarrow>
         ProcessedAt (transaction_objs (apply_ops tx w ops) tx) \<noteq> None)) \<and>
   (\<not> IsPending (transaction_objs w tx) \<longrightarrow>
      transaction_objs (snd (ProcessPendingTransactions w ks)) tx = transaction_objs w tx) \<and>
   TxStatus (Complete t now) = TransactionStatusCompleted \<and> ProcessedAt (Complete t now) = Some now \<and>
   TxStatus (Fail t now) = TransactionStatusFailed \<and> ProcessedAt (Fail t now) = Some now"
  by (simp add: apply_ops_terminal apply_ops_processed terminal_not_pending
      ProcessPendingTransactions_not_pending Complete_def Fail_def)


theorem terminal_stays_terminal_witness:
  "terminal (transaction_objs funded 2) \<and> \<not> IsPending (transaction_objs funded 2) \<and>
   ProcessedAt (transaction_objs funded 2) \<noteq> None \<and>
   terminal (transaction_objs
     (apply_ops 2 funded [OpFail, OpProcessPendingTransactions [''tx_12345''], OpComplete]) 2) \<and>
   ProcessedAt (transaction_objs
     (apply_ops 2 funded [OpFail, OpProcessPendingTransactions [''tx_12345''], OpComplete]) 2) \<noteq> None \<and>
   transaction_objs (snd (ProcessPendingTransactions funded [''tx_12345''])) 2 =
     transaction_objs funded 2"
proof -
  have t: "terminal (transaction_objs funded 2)"
    by (simp add: funded_eval terminal_def Complete_def)
  have p: "ProcessedAt (transaction_objs funded 2) \<noteq> None"
    by (simp add: funded_eval Complete_def)
  have n: "\<not> IsPending (transaction_objs funded 2)"
    by (simp add: funded_eval IsPending_def Complete_def TransactionStatusCompleted_def
        TransactionStatusPending_def)
  from terminal_stays_terminal
         [of funded 2 "[OpFail, OpProcessPendingTransactions [''tx_12345''], OpComplete]" "[''tx_12345'']"]
  show ?thesis using t p n by blast
qed

text \<open>The claim as stated fails: the Completed deposit of the scenario is Failed after
  \<open>Fail\<close>, and its \<open>ProcessedAt\<close> is stamped a second time.\<close>

theorem Fail_after_Complete_counterexample:
  "TxStatus (transaction_objs funded 2) = TransactionStatusCompleted \<and>
   ProcessedAt (transaction_objs funded 2) = Some 4 \<and>
   TxStatus (transaction_objs (apply_ops 2 funded [OpFail]) 2) = TransactionStatusFailed \<and>
   ProcessedAt (transaction_objs (apply_ops 2 funded [OpFail]) 2) = Some 5 \<and>
   TransactionStatusFailed \<noteq> TransactionStatusCompleted"
  by (simp add: funded_eval apply_ops_def ptr_Fail_def tick_def time_Now_def Complete_def Fail_def
      TransactionStatusFailed_def TransactionStatusCompleted_def)

section \<open>Looking transactions up by account\<close>

lemma set_range_values: "set (range_values m ks) = {v. \<exists>k \<in> set ks. m k = Some v}"
  by (induction ks) (auto split: option.splits)

lemma range_values_append: "range_values m (ks @ ks') = range_values m ks @ range_values m ks'"
  by (induction ks) (auto split: option.splits)

lemma range_values_rev: "range_values m (rev ks) = rev (range_values m ks)"
  by (induction ks) (auto simp: range_values_append split: option.splits)

lemma range_values_ran: "iteration_order m ks \<Longrightarrow> set (range_values m ks) = ran m"
  by (auto simp: set_range_values iteration_order_def ran_def)

text \<open>
  Claim C5, as the code has it. \<open>FindByAccountID\<close> returns exactly the stored
  transactions whose \<open>AccountID\<close> is the given id; \<open>SourceAccountID\<close> and
  \<open>TargetAccountID\<close> are not looked at. The result comes in the order in which the
  map is ranged over, which Go leaves unspecified: ranging in the reverse order gives
  the reverse list.
\<close>

theorem FindByAccountID_by_AccountID:
  "(iteration_order (transactions w) ks \<longrightarrow>
      set (TransactionRepository_FindByAccountID w ks accountID) =
        {tx \<in> ran (transactions w). AccountID (transaction_objs w tx) = accountID}) \<and>
   TransactionRepository_FindByAccountID w (rev ks) accountID =
     rev (TransactionRepository_FindByAccountID w ks accountID)"
  by (auto simp: TransactionRepository_FindByAccountID_def range_values_ran range_values_rev rev_filter)

theorem FindByAccountID_by_AccountID_witness:
  "iteration_order (transactions transferred) [''tx_12345''] \<and>
   set (TransactionRepository_FindByAccountID transferred [''tx_12345''] ''acc1'') = {3} \<and>
   {tx \<in> ran (transactions transferred). AccountID (transaction_objs transferred tx) = ''acc1''} = {3}"
proof -
  have ord: "iteration_order (transactions transferred) [''tx_12345'']"
    by (auto simp: transferred_eval iteration_order_def split: if_splits)
  have "set (TransactionRepository_FindByAccountID transferred [''tx_12345''] ''acc1'') = {3}"
    by (simp add: transferred_eval TransactionRepository_FindByAccountID_def Complete_def
        NewTransaction_def)
  with FindByAccountID_by_AccountID [of transferred "[''tx_12345'']" "''acc1''"] ord
  show ?thesis by simp
qed

text \<open>The claim as stated fails: the transfer of the scenario has target \<open>acc2\<close> and is
  not among the transactions found for \<open>acc2\<close>.\<close>

theorem FindByAccountID_target_counterexample:
  "transactions transferred ''tx_12345'' = Some 3 \<and>
   TargetAccountID (transaction_objs transferred 3) = ''acc2'' \<and>
   TransactionRepository_FindByAccountID transferred [''tx_12345''] ''acc2'' = []"
  by (simp add: transferred_eval TransactionRepository_FindByAccountID_def Complete_def
      NewTransaction_def)

section \<open>Identifiers\<close>

text \<open>
  Claim C6 fails on the code. Both generators return a constant. Two successful calls
  of \<open>CreateAccount\<close> give two accounts with the \<open>ID\<close> \<open>acc_12345\<close>, and the second
  takes the place of the first in the store; the deposit and the transfer of the
  scenario give two transactions with the \<open>ID\<close> \<open>tx_12345\<close>, and the store keeps the
  later one only.
\<close>

theorem generated_ids_collide:
  "generateAccountID = ''acc_12345'' \<and> generateTransactionID = ''tx_12345'' \<and>
   fst alice_created = Inr 0 \<and> fst bob_created = Inr 1 \<and>
   ID (account_objs (snd bob_created) 0) = ''acc_12345'' \<and>
   ID (account_objs (snd bob_created) 1) = ''acc_12345'' \<and>
   AccountRepository_FindByID (snd alice_created) ''acc_12345'' = Inr 0 \<and>
   AccountRepository_FindByID (snd bob_created) ''acc_12345'' = Inr 1 \<and>
   AccountRepository_FindByEmail (snd bob_created) [''acc_12345''] ''alice@example.com'' =
     Inl ''account not found'' \<and>
   fst (CreateDeposit two_accounts ''acc1'' (NewMoney 100 CurrencyUSD)) = Inr 2 \<and>
   fst transfer_call = Inr 3 \<and>
   TxID (transaction_objs transferred 2) = ''tx_12345'' \<and>
   TxID (transaction_objs transferred 3) = ''tx_12345'' \<and>
   TransactionRepository_FindByID funded ''tx_12345'' = Inr 2 \<and>
   TransactionRepository_FindByID transferred ''tx_12345'' = Inr 3"
  by (simp add: alice_created_def bob_created_def CreateAccount_def AccountRepository_FindByEmail_def
      ptr_NewAccount_def NewWorld_def
      generateAccountID_def generateTransactionID_def NewAccount_def
      transferred_eval funded_eval two_accounts_eval TransactionRepository_FindByID_def
      transfer_call_def CreateDeposit_def CreateTransfer_def repo_defs ptr_defs entity_defs
      IsPositive_def IsActive_def NewMoney_def Let_def)


section \<open>Money arithmetic\<close>

text \<open>
  Claim C7. For two Money values of different currencies \<open>Add\<close> and \<open>Subtract\<close> fail
  with the currency-mismatch error; for equal currencies they succeed with the sum
  (the difference) of the amounts in the unchanged currency. Both methods have value
  receivers: they are functions of their operands and return a new value.
\<close>

theorem Add_Subtract_currency_checked:
  "(Currency m \<noteq> Currency other \<longrightarrow>
      Add m other = Inl ''currency mismatch'' \<and> Subtract m other = Inl ''currency mismatch'') \<and>
   (Currency m = Currency other \<longrightarrow>
      Add m other = Inr \<lparr>Amount = Amount m + Amount other, Currency = Currency m\<rparr> \<and>
      Subtract m other = Inr \<lparr>Amount = Amount m - Amount other, Currency = Currency m\<rparr>)"
  by (simp add: Add_def Subtract_def)

theorem Add_Subtract_currency_checked_witness:
  "Add (NewMoney (100::int) CurrencyUSD) (NewMoney 50 CurrencyEUR) = Inl ''currency mismatch'' \<and>
   Subtract (NewMoney (100::int) CurrencyUSD) (NewMoney 50 CurrencyEUR) = Inl ''currency mismatch'' \<and>
   Add (NewMoney (100::int) CurrencyUSD) (NewMoney 50 CurrencyUSD) = Inr (NewMoney 150 CurrencyUSD) \<and>
   Subtract (NewMoney (100::int) CurrencyUSD) (NewMoney 50 CurrencyUSD) = Inr (NewMoney 50 CurrencyUSD)"
  using Add_Subtract_currency_checked [of "NewMoney (100::int) CurrencyUSD" "NewMoney 50 CurrencyEUR"]
    Add_Subtract_currency_checked [of "NewMoney (100::int) CurrencyUSD" "NewMoney 50 CurrencyUSD"]
  by (simp add: NewMoney_def CurrencyUSD_def CurrencyEUR_def)

section \<open>Account status\<close>

text \<open>
  Claim C8, as the code has it. \<open>Activate\<close> has no guard: whatever the status was,
  Closed included, the account is Active afterwards and \<open>UpdatedAt\<close> is stamped; no
  other field changes.
\<close>

theorem Activate_unconditional:
  "Status (Activate a now) = AccountStatusActive \<and> IsActive (Activate a now) \<and>
   UpdatedAt (Activate a now) = now \<and>
   Activate a now = a\<lparr>Status := AccountStatusActive, UpdatedAt := now\<rparr>"
  by (simp add: Activate_def IsActive_def)

text \<open>The claim as stated fails on a Closed account: it is Active after \<open>Activate\<close>.\<close>

theorem Activate_Closed_counterexample:
  "Status (Activate ((NewAccount ''acc_12345'' ''owner'' ''a@b.c'' AccountTypePersonal 0 :: int Account)
             \<lparr>Status := AccountStatusClosed\<rparr>) 1) \<noteq> AccountStatusClosed \<and>
   Status (Activate ((NewAccount ''acc_12345'' ''owner'' ''a@b.c'' AccountTypePersonal 0 :: int Account)
             \<lparr>Status := AccountStatusClosed\<rparr>) 1) = AccountStatusActive"
  by (simp add: Activate_def NewAccount_def AccountStatusActive_def AccountStatusClosed_def)


end
